theory Spec2Isabelle
  imports Main "HOL-Library.List_Lexorder" "HOL-Library.Multiset"
begin

section \<open>Values of the comic library backend\<close>

text \<open>
  The backend (\<^verbatim>\<open>server.js\<close>) is a set of Express handlers over a PostgreSQL store.
  A handler is modelled as a function from the environment and the state of the world
  to the new state and the HTTP response. What the handler cannot decide itself is
  read from the environment: whether the store answers an operation, what
  \<^verbatim>\<open>NOW()\<close> returns, the random token of a generated \<^verbatim>\<open>comic_id\<close>, and the locale of the
  store.

  A text value is the list of its characters, each character its Unicode code point:
  the store measures and matches text by characters. \<open>ustr\<close> gives the text of an ASCII
  literal. A field of a JSON body that holds a string is \<open>Some s\<close>; \<open>None\<close> is a field that
  is absent (\<^verbatim>\<open>undefined\<close>) or \<^verbatim>\<open>null\<close>: both are falsy in JavaScript and both are sent
  to the store as SQL \<^verbatim>\<open>NULL\<close> by the driver.
\<close>

type_synonym timestamp = nat

type_synonym ustring = "nat list"

definition ustr :: "string \<Rightarrow> ustring" where
  "ustr s = map of_char s"

definition truthy :: "ustring option \<Rightarrow> bool" where
  "truthy v = (case v of None \<Rightarrow> False | Some s \<Rightarrow> s \<noteq> [])"

text \<open>\<^verbatim>\<open>v || d\<close> on a string field.\<close>

definition or_default :: "ustring option \<Rightarrow> ustring \<Rightarrow> ustring" where
  "or_default v d = (case v of None \<Rightarrow> d | Some s \<Rightarrow> if s = [] then d else s)"

text \<open>\<^verbatim>\<open>tags || []\<close>: an array, even an empty one, is truthy.\<close>

definition tags_or_empty :: "ustring list option \<Rightarrow> ustring list" where
  "tags_or_empty v = (case v of None \<Rightarrow> [] | Some ts \<Rightarrow> ts)"

subsection \<open>Column types\<close>

text \<open>
  Assigning a string of more than \<open>n\<close> characters to a \<^verbatim>\<open>VARCHAR(n)\<close> column is an
  error, unless every character past the first \<open>n\<close> is a space: then the string is cut
  to \<open>n\<close> characters.
\<close>

definition varchar :: "nat \<Rightarrow> ustring \<Rightarrow> ustring option" where
  "varchar n s =
     (if length s \<le> n then Some s
      else if list_all (\<lambda>c. c = of_char (CHR '' '')) (drop n s) then Some (take n s)
      else None)"

text \<open>
  A parameter assigned to a nullable \<^verbatim>\<open>VARCHAR(n)\<close> column: \<open>None\<close> is the length error,
  \<open>Some None\<close> is \<^verbatim>\<open>NULL\<close>.
\<close>

definition assign :: "nat \<Rightarrow> ustring option \<Rightarrow> ustring option option" where
  "assign n v = (case v of None \<Rightarrow> Some None | Some s \<Rightarrow> map_option Some (varchar n s))"

definition fits :: "nat \<Rightarrow> ustring option \<Rightarrow> bool" where
  "fits n v = (case v of None \<Rightarrow> True | Some s \<Rightarrow> length s \<le> n)"

text \<open>
  The \<^verbatim>\<open>id SERIAL\<close> columns are 32-bit: their sequences end at \<open>int4_max\<close>, and
  \<^verbatim>\<open>nextval\<close> is an error from there on. \<^verbatim>\<open>LIMIT\<close> and \<^verbatim>\<open>OFFSET\<close> are 64-bit.
\<close>

definition int4_max :: nat where
  "int4_max = 2147483647"


subsection \<open>Pattern matching\<close>






subsection \<open>Rows and tables\<close>

text \<open>
  The two tables as \<^verbatim>\<open>initializeDatabase\<close> creates them. Columns without \<^verbatim>\<open>NOT NULL\<close>
  are options; the two timestamps are written by every statement of the program
  (\<^verbatim>\<open>NOW()\<close> or the column default) and are never \<^verbatim>\<open>NULL\<close>. \<open>id_col\<close> is the column
  \<^verbatim>\<open>id SERIAL PRIMARY KEY\<close>.
\<close>

record comic =
  id_col :: nat
  comic_id :: ustring
  title :: ustring
  category_id :: ustring
  subcategory :: "ustring option"
  "chapter" :: "ustring option"
  rating :: "ustring option"
  tags :: "ustring list option"
  description :: "ustring option"
  last_updated :: timestamp
  created_at :: timestamp

record category =
  cat_id_col :: nat
  cat_category_id :: ustring
  cat_name :: ustring
  cat_code :: ustring
  cat_icon :: "ustring option"
  cat_color :: "ustring option"
  cat_created_at :: timestamp

text \<open>
  An entry of the JavaScript constant \<^verbatim>\<open>defaultCategories\<close>; the letters of the names
  outside ASCII are written as their code points.
\<close>

record default_category =
  def_category_id :: ustring
  def_name :: ustring
  def_code :: ustring
  def_icon :: ustring
  def_color :: ustring

definition defaultCategories :: "default_category list" where
  "defaultCategories =
    [\<lparr>def_category_id = ustr ''hoc-duong'', def_name = ustr ''H'' @ [0x1ECC] @ ustr ''C '' @ [0x0110, 0x01AF, 0x1EDC] @ ustr ''NG'',
      def_code = ustr ''1111'', def_icon = ustr ''fas fa-school'', def_color = ustr ''#6366f1''\<rparr>,
     \<lparr>def_category_id = ustr ''mat-the'', def_name = ustr ''M'' @ [0x1EA0] @ ustr ''T TH'' @ [0x1EBE],
      def_code = ustr ''2222'', def_icon = ustr ''fas fa-skull-crossbones'', def_color = ustr ''#ef4444''\<rparr>,
     \<lparr>def_category_id = ustr ''he-thong'', def_name = ustr ''H'' @ [0x1EC6] @ ustr '' TH'' @ [0x1ED0] @ ustr ''NG'',
      def_code = ustr ''3333'', def_icon = ustr ''fas fa-cogs'', def_color = ustr ''#10b981''\<rparr>,
     \<lparr>def_category_id = ustr ''xay-dung'', def_name = ustr ''X'' @ [0x00C2] @ ustr ''Y D'' @ [0x1EF0] @ ustr ''NG'',
      def_code = ustr ''4444'', def_icon = ustr ''fas fa-building'', def_color = ustr ''#f59e0b''\<rparr>,
     \<lparr>def_category_id = ustr ''di-gioi'', def_name = ustr ''D'' @ [0x1ECA] @ ustr '' GI'' @ [0x1EDA] @ ustr ''I'',
      def_code = ustr ''5555'', def_icon = ustr ''fas fa-globe-asia'', def_color = ustr ''#8b5cf6''\<rparr>,
     \<lparr>def_category_id = ustr ''kinh-doanh'', def_name = ustr ''KINH DOANH'',
      def_code = ustr ''6666'', def_icon = ustr ''fas fa-chart-line'', def_color = ustr ''#06b6d4''\<rparr>,
     \<lparr>def_category_id = ustr ''trung-sinh'', def_name = ustr ''TR'' @ [0x00D9] @ ustr ''NG SINH'',
      def_code = ustr ''7777'', def_icon = ustr ''fas fa-redo'', def_color = ustr ''#ec4899''\<rparr>,
     \<lparr>def_category_id = ustr ''ngon'', def_name = ustr ''NG'' @ [0x00D4] @ ustr ''N'',
      def_code = ustr ''8888'', def_icon = ustr ''fas fa-heart'', def_color = ustr ''#f43f5e''\<rparr>,
     \<lparr>def_category_id = ustr ''tu-tien'', def_name = ustr ''TU TI'' @ [0x00CA] @ ustr ''N'',
      def_code = ustr ''AAA'', def_icon = ustr ''fas fa-mountain'', def_color = ustr ''#22c55e''\<rparr>,
     \<lparr>def_category_id = ustr ''do-thi'', def_name = [0x0110, 0x00D4] @ ustr '' TH'' @ [0x1ECA],
      def_code = ustr ''BBB'', def_icon = ustr ''fas fa-city'', def_color = ustr ''#3b82f6''\<rparr>,
     \<lparr>def_category_id = ustr ''phan-dien'', def_name = ustr ''PH'' @ [0x1EA2] @ ustr ''N DI'' @ [0x1EC6] @ ustr ''N'',
      def_code = ustr ''CCC'', def_icon = ustr ''fas fa-user-ninja'', def_color = ustr ''#0ea5e9''\<rparr>,
     \<lparr>def_category_id = ustr ''vo-han-luu'', def_name = ustr ''V'' @ [0x00D4] @ ustr '' H'' @ [0x1EA0] @ ustr ''N L'' @ [0x01AF] @ ustr ''U'',
      def_code = ustr ''EEE'', def_icon = ustr ''fas fa-infinity'', def_color = ustr ''#a855f7''\<rparr>,
     \<lparr>def_category_id = ustr ''manh'', def_name = ustr ''M'' @ [0x1EA0] @ ustr ''NH'',
      def_code = ustr ''DDD'', def_icon = ustr ''fas fa-fist-raised'', def_color = ustr ''#f97316''\<rparr>,
     \<lparr>def_category_id = ustr ''quy-than'', def_name = ustr ''QU'' @ [0x1EF6] @ ustr '' TH'' @ [0x1EA6] @ ustr ''N'',
      def_code = ustr ''FFF'', def_icon = ustr ''fas fa-ghost'', def_color = ustr ''#6b7280''\<rparr>,
     \<lparr>def_category_id = ustr ''ecchi'', def_name = ustr ''ECCHI'',
      def_code = ustr ''9999'', def_icon = ustr ''fas fa-fire'', def_color = ustr ''#dc2626''\<rparr>,
     \<lparr>def_category_id = ustr ''phim'', def_name = ustr ''PHIM'',
      def_code = ustr ''0000'', def_icon = ustr ''fas fa-film'', def_color = ustr ''#8b5cf6''\<rparr>]"

text \<open>
  A table holds its rows in insertion order, the last value of the sequence behind
  its \<^verbatim>\<open>id\<close> column and, for \<^verbatim>\<open>comics\<close>, whether the foreign key
  \<^verbatim>\<open>comics_category_id_fkey\<close> is in place (\<^verbatim>\<open>initializeDatabase\<close> adds it when it can).
  A table that does not exist is \<open>None\<close>.
\<close>

record comics_table =
  rows :: "comic list"
  id_seq :: nat
  category_id_fkey :: bool

record categories_table =
  cat_rows :: "category list"
  cat_id_seq :: nat

record store =
  categories :: "categories_table option"
  comics :: "comics_table option"

text \<open>
  The unique constraints of \<^verbatim>\<open>comics\<close> and of \<^verbatim>\<open>categories\<close>, by their columns, as the
  two \<^verbatim>\<open>CREATE TABLE\<close> statements declare them (\<^verbatim>\<open>PRIMARY KEY\<close> and \<^verbatim>\<open>UNIQUE\<close>). The program
  has no other statement that creates an index or a constraint on a column.
\<close>

definition comics_unique :: "string list list" where
  "comics_unique = [[''id''], [''comic_id'']]"

definition categories_unique :: "string list list" where
  "categories_unique = [[''id''], [''category_id'']]"

text \<open>
  \<^verbatim>\<open>ON CONFLICT (columns)\<close> needs a unique index on exactly these columns, in any order;
  PostgreSQL rejects the statement otherwise.
\<close>

definition arbiter_index :: "string list list \<Rightarrow> string list \<Rightarrow> bool" where
  "arbiter_index uniq target = list_ex (\<lambda>u. set u = set target) uniq"

definition known_category :: "store \<Rightarrow> ustring \<Rightarrow> bool" where
  "known_category st c =
     (case categories st of
        None \<Rightarrow> False
      | Some ct \<Rightarrow> list_ex (\<lambda>x. cat_category_id x = c) (cat_rows ct))"

subsection \<open>The world around a handler\<close>

datatype db_error =
    ConnectionError
  | UndefinedTable
  | NotNullViolation
  | UniqueViolation
  | ForeignKeyViolation
  | StringTooLong
  | NoArbiterIndex
  | NegativeRowCount
  | SequenceExhausted
  | NumericValueOutOfRange
  | InvalidTextRepresentation

text \<open>
  Store operations are numbered as they are attempted (\<open>ops\<close>). The environment says of
  each whether the store is unreachable at that moment (\<open>down\<close>), what \<^verbatim>\<open>NOW()\<close> is then,
  and which \<^verbatim>\<open>comic_id\<close> \<^verbatim>\<open>Date.now()\<close> and \<^verbatim>\<open>Math.random()\<close> give just before it. It
  also holds the lower-case map of the store's locale (\<open>lc_lower\<close>), and what the
  floating-point arithmetic of JavaScript and the driver make of \<^verbatim>\<open>(page - 1) * limit\<close>
  where the numbers are too large to be exact (\<open>inexact\<close>; \<open>None\<close> is a text that the
  store does not read as an integer).
  \<open>acquired\<close> and \<open>released\<close> count the clients taken from the pool with
  \<^verbatim>\<open>pool.connect()\<close> and given back with \<^verbatim>\<open>release()\<close>.
\<close>

record env =
  down :: "nat \<Rightarrow> bool"
  now :: "nat \<Rightarrow> timestamp"
  random_id :: "nat \<Rightarrow> ustring"
  lc_lower :: "nat \<Rightarrow> nat"
  inexact :: "int \<Rightarrow> int \<Rightarrow> int option"

record world =
  db :: store
  ops :: nat
  acquired :: nat
  released :: nat

datatype 'a response = Json nat 'a | Failure nat string

text \<open>
  \<^verbatim>\<open>pool.query(sql, params)\<close> and \<^verbatim>\<open>client.query(sql, params)\<close>: one store operation. A
  statement is a function of \<^verbatim>\<open>NOW()\<close> and the store; it gives the store back (an error
  leaves the rows as they were) and its result or its error.
\<close>

definition pool_query ::
  "env \<Rightarrow> world \<Rightarrow> (timestamp \<Rightarrow> store \<Rightarrow> store \<times> (db_error + 'a)) \<Rightarrow> world \<times> (db_error + 'a)" where
  "pool_query e w stmt =
     (if down e (ops w) then (w\<lparr>ops := Suc (ops w)\<rparr>, Inl ConnectionError)
      else (w\<lparr>db := fst (stmt (now e (ops w)) (db w)), ops := Suc (ops w)\<rparr>,
            snd (stmt (now e (ops w)) (db w))))"

text \<open>\<^verbatim>\<open>await pool.connect()\<close>: \<open>False\<close> when it throws. \<^verbatim>\<open>client.release()\<close>.\<close>

definition pool_connect :: "env \<Rightarrow> world \<Rightarrow> world \<times> bool" where
  "pool_connect e w =
     (if down e (ops w) then (w\<lparr>ops := Suc (ops w)\<rparr>, False)
      else (w\<lparr>ops := Suc (ops w), acquired := Suc (acquired w)\<rparr>, True))"

definition client_release :: "world \<Rightarrow> world" where
  "client_release w = w\<lparr>released := Suc (released w)\<rparr>"

text \<open>A JSON request body of the comic routes; a route reads the fields it names.\<close>

record body =
  body_title :: "ustring option"
  body_category_id :: "ustring option"
  body_subcategory :: "ustring option"
  body_chapter :: "ustring option"
  body_rating :: "ustring option"
  body_tags :: "ustring list option"
  body_description :: "ustring option"
  body_comic_id :: "ustring option"
  body_created_at :: "ustring option"

section \<open>Statements on the comics table\<close>

text \<open>
  \<^verbatim>\<open>UPDATE comics SET ... WHERE p RETURNING *\<close> on the table \<open>tb\<close>: every row that satisfies
  \<open>p\<close> is replaced by \<open>f\<close> of it, in place, and the new rows are returned in the order of
  the table.
\<close>

definition run_update ::
  "(comic \<Rightarrow> bool) \<Rightarrow> (comic \<Rightarrow> comic) \<Rightarrow> store \<Rightarrow> comics_table \<Rightarrow> store \<times> (db_error + comic list)" where
  "run_update p f st tb =
     (st\<lparr>comics := Some (tb\<lparr>rows := map (\<lambda>r. if p r then f r else r) (rows tb)\<rparr>)\<rparr>,
      Inr (map f (filter p (rows tb))))"

text \<open>\<^verbatim>\<open>COALESCE($k, column)\<close>: the parameter unless it is \<^verbatim>\<open>NULL\<close>.\<close>

definition coalesce :: "'a option \<Rightarrow> 'a \<Rightarrow> 'a" where
  "coalesce p old = (case p of None \<Rightarrow> old | Some v \<Rightarrow> v)"

text \<open>
  The \<^verbatim>\<open>SET\<close> list of \<^verbatim>\<open>PUT /api/comics/:id\<close> on one row, the parameters already of the
  types of their columns.
\<close>

definition put_set :: "ustring option \<Rightarrow> ustring option \<Rightarrow> ustring option \<Rightarrow> ustring list option \<Rightarrow>
    ustring option \<Rightarrow> timestamp \<Rightarrow> comic \<Rightarrow> comic" where
  "put_set ch ra ti tg de t r =
     r\<lparr>chapter := coalesce (map_option Some ch) (chapter r),
       rating := coalesce (map_option Some ra) (rating r),
       title := coalesce ti (title r),
       tags := coalesce (map_option Some tg) (tags r),
       description := coalesce (map_option Some de) (description r),
       last_updated := t\<rparr>"

text \<open>
  \<^verbatim>\<open>UPDATE comics SET chapter = COALESCE($1, chapter), rating = COALESCE($2, rating),
  title = COALESCE($3, title), tags = COALESCE($4, tags), description = COALESCE($5,
  description), last_updated = NOW() WHERE comic_id = $6 RETURNING *\<close>. The driver sends
  the values with the statement, and the store brings each of them to the type of its
  column when it plans the statement, before it reads a row: a value that is too long
  fails the statement whether or not a row has the \<^verbatim>\<open>comic_id\<close>.
\<close>

definition sql_update_comic :: "ustring option \<Rightarrow> ustring option \<Rightarrow> ustring option \<Rightarrow>
    ustring list option \<Rightarrow> ustring option \<Rightarrow> ustring \<Rightarrow> timestamp \<Rightarrow> store \<Rightarrow> store \<times> (db_error + comic list)" where
  "sql_update_comic ch ra ti tg de ident t st =
     (case comics st of
        None \<Rightarrow> (st, Inl UndefinedTable)
      | Some tb \<Rightarrow>
          (case (assign 50 ch, assign 20 ra, assign 500 ti) of
             (Some ch', Some ra', Some ti') \<Rightarrow>
               run_update (\<lambda>r. comic_id r = ident) (put_set ch' ra' ti' tg de t) st tb
           | _ \<Rightarrow> (st, Inl StringTooLong)))"



text \<open>
  \<^verbatim>\<open>INSERT INTO comics (comic_id, title, category_id, subcategory, chapter, rating, tags,
  description, last_updated) VALUES ($1, ..., $8, NOW()) RETURNING *\<close>, with
  \<^verbatim>\<open>ON CONFLICT (title, category_id) DO UPDATE SET chapter = EXCLUDED.chapter, rating =
  EXCLUDED.rating, last_updated = NOW()\<close> when \<open>on_conflict\<close>. \<^verbatim>\<open>created_at\<close> takes its
  default, the same \<^verbatim>\<open>NOW()\<close>.

  The statement is rejected when its \<^verbatim>\<open>ON CONFLICT\<close> has no index, then when a value is
  too long for its column. Then the candidate row takes its \<^verbatim>\<open>id\<close> from the sequence,
  which fails at its end and otherwise keeps the value also when the row is not
  inserted. \<open>insert_row\<close> is what follows: a row in conflict on the arbiter index is
  updated instead; a second \<^verbatim>\<open>comic_id\<close> and, under the foreign key, an unknown category
  are errors.
\<close>

definition insert_row :: "bool \<Rightarrow> comic \<Rightarrow> store \<Rightarrow> comics_table \<Rightarrow> store \<times> (db_error + comic list)" where
  "insert_row on_conflict r st tb =
     (if on_conflict \<and> list_ex (\<lambda>x. title x = title r \<and> category_id x = category_id r) (rows tb) then
        (st\<lparr>comics := Some (tb\<lparr>id_seq := id_col r,
            rows := map (\<lambda>x. if title x = title r \<and> category_id x = category_id r
                              then x\<lparr>chapter := chapter r, rating := rating r, last_updated := last_updated r\<rparr>
                              else x) (rows tb)\<rparr>)\<rparr>,
         Inr (map (\<lambda>x. x\<lparr>chapter := chapter r, rating := rating r, last_updated := last_updated r\<rparr>)
                (filter (\<lambda>x. title x = title r \<and> category_id x = category_id r) (rows tb))))
      else if list_ex (\<lambda>x. comic_id x = comic_id r) (rows tb) then
        (st\<lparr>comics := Some (tb\<lparr>id_seq := id_col r\<rparr>)\<rparr>, Inl UniqueViolation)
      else if category_id_fkey tb \<and> \<not> known_category st (category_id r) then
        (st\<lparr>comics := Some (tb\<lparr>id_seq := id_col r\<rparr>)\<rparr>, Inl ForeignKeyViolation)
      else (st\<lparr>comics := Some (tb\<lparr>id_seq := id_col r, rows := rows tb @ [r]\<rparr>)\<rparr>, Inr [r]))"

definition sql_insert_comic :: "bool \<Rightarrow> ustring \<Rightarrow> ustring option \<Rightarrow> ustring option \<Rightarrow> ustring option \<Rightarrow>
    ustring option \<Rightarrow> ustring option \<Rightarrow> ustring list option \<Rightarrow> ustring option \<Rightarrow>
    timestamp \<Rightarrow> store \<Rightarrow> store \<times> (db_error + comic list)" where
  "sql_insert_comic on_conflict cid ti ca su ch ra tg de t st =
     (case comics st of
        None \<Rightarrow> (st, Inl UndefinedTable)
      | Some tb \<Rightarrow>
          if on_conflict \<and> \<not> arbiter_index comics_unique [''title'', ''category_id''] then
            (st, Inl NoArbiterIndex)
          else
            (case (varchar 100 cid, assign 500 ti, assign 50 ca, assign 100 su, assign 50 ch, assign 20 ra) of
               (Some cid', Some ti', Some ca', Some su', Some ch', Some ra') \<Rightarrow>
                 if int4_max \<le> id_seq tb then (st, Inl SequenceExhausted)
                 else
                   (case (ti', ca') of
                      (Some ti'', Some ca'') \<Rightarrow>
                        insert_row on_conflict
                          \<lparr>id_col = Suc (id_seq tb), comic_id = cid', title = ti'', category_id = ca'',
                           subcategory = su', chapter = ch', rating = ra', tags = tg, description = de,
                           last_updated = t, created_at = t\<rparr> st tb
                    | _ \<Rightarrow> (st\<lparr>comics := Some (tb\<lparr>id_seq := Suc (id_seq tb)\<rparr>)\<rparr>, Inl NotNullViolation))
             | _ \<Rightarrow> (st, Inl StringTooLong)))"




text \<open>
  \<^verbatim>\<open>SELECT COUNT(*) FROM comics\<close>, and the count of the rows \<^verbatim>\<open>WHERE chapter IS NOT NULL
  AND chapter != '' AND chapter != '0'\<close>.
\<close>

definition sql_count_comics :: "timestamp \<Rightarrow> store \<Rightarrow> store \<times> (db_error + nat)" where
  "sql_count_comics t st =
     (case comics st of None \<Rightarrow> (st, Inl UndefinedTable) | Some tb \<Rightarrow> (st, Inr (length (rows tb))))"

definition reading :: "comic \<Rightarrow> bool" where
  "reading r = (case chapter r of None \<Rightarrow> False | Some c \<Rightarrow> c \<noteq> [] \<and> c \<noteq> ustr ''0'')"

definition sql_count_reading :: "timestamp \<Rightarrow> store \<Rightarrow> store \<times> (db_error + nat)" where
  "sql_count_reading t st =
     (case comics st of
        None \<Rightarrow> (st, Inl UndefinedTable)
      | Some tb \<Rightarrow> (st, Inr (length (filter reading (rows tb)))))"

section \<open>Statements on the schema and the categories table\<close>

text \<open>
  \<^verbatim>\<open>SELECT EXISTS (SELECT FROM information_schema.tables WHERE table_schema = 'public' AND
  table_name = ...)\<close>, the pair of them that \<^verbatim>\<open>GET /api/stats\<close> asks for, and the list of
  the tables of the schema in the order of their names.
\<close>

definition table_exists :: "string \<Rightarrow> store \<Rightarrow> bool" where
  "table_exists name st =
     (if name = ''categories'' then categories st \<noteq> None
      else if name = ''comics'' then comics st \<noteq> None
      else False)"

definition sql_table_exists :: "string \<Rightarrow> timestamp \<Rightarrow> store \<Rightarrow> store \<times> (db_error + bool)" where
  "sql_table_exists name t st = (st, Inr (table_exists name st))"

definition sql_tables_exist :: "timestamp \<Rightarrow> store \<Rightarrow> store \<times> (db_error + bool \<times> bool)" where
  "sql_tables_exist t st = (st, Inr (table_exists ''categories'' st, table_exists ''comics'' st))"

definition sql_public_tables :: "timestamp \<Rightarrow> store \<Rightarrow> store \<times> (db_error + string list)" where
  "sql_public_tables t st = (st, Inr (filter (\<lambda>n. table_exists n st) [''categories'', ''comics'']))"

definition sql_now :: "timestamp \<Rightarrow> store \<Rightarrow> store \<times> (db_error + timestamp)" where
  "sql_now t st = (st, Inr t)"

text \<open>\<^verbatim>\<open>SELECT COUNT(*) FROM ${table}\<close>.\<close>

definition sql_count_table :: "string \<Rightarrow> timestamp \<Rightarrow> store \<Rightarrow> store \<times> (db_error + nat)" where
  "sql_count_table name t st =
     (if name = ''categories'' then
        (case categories st of None \<Rightarrow> (st, Inl UndefinedTable) | Some ct \<Rightarrow> (st, Inr (length (cat_rows ct))))
      else if name = ''comics'' then sql_count_comics t st
      else (st, Inl UndefinedTable))"

text \<open>The two \<^verbatim>\<open>CREATE TABLE IF NOT EXISTS\<close>.\<close>

definition sql_create_categories :: "timestamp \<Rightarrow> store \<Rightarrow> store \<times> (db_error + unit)" where
  "sql_create_categories t st =
     (case categories st of
        None \<Rightarrow> (st\<lparr>categories := Some \<lparr>cat_rows = [], cat_id_seq = 0\<rparr>\<rparr>, Inr ())
      | Some ct \<Rightarrow> (st, Inr ()))"

definition sql_create_comics :: "timestamp \<Rightarrow> store \<Rightarrow> store \<times> (db_error + unit)" where
  "sql_create_comics t st =
     (case comics st of
        None \<Rightarrow> (st\<lparr>comics := Some \<lparr>rows = [], id_seq = 0, category_id_fkey = False\<rparr>\<rparr>, Inr ())
      | Some tb \<Rightarrow> (st, Inr ()))"

text \<open>
  \<^verbatim>\<open>INSERT INTO categories (category_id, name, code, icon, color) VALUES (...) ON CONFLICT
  (category_id) DO NOTHING\<close>, for an entry of \<^verbatim>\<open>defaultCategories\<close> (each of its strings
  fits its column). The row takes its \<^verbatim>\<open>id\<close> from the sequence before the conflict is
  looked for.
\<close>

definition sql_insert_category :: "default_category \<Rightarrow> timestamp \<Rightarrow> store \<Rightarrow> store \<times> (db_error + unit)" where
  "sql_insert_category d t st =
     (case categories st of
        None \<Rightarrow> (st, Inl UndefinedTable)
      | Some ct \<Rightarrow>
          if \<not> arbiter_index categories_unique [''category_id''] then (st, Inl NoArbiterIndex)
          else if int4_max \<le> cat_id_seq ct then (st, Inl SequenceExhausted)
          else if list_ex (\<lambda>x. cat_category_id x = def_category_id d) (cat_rows ct) then
            (st\<lparr>categories := Some (ct\<lparr>cat_id_seq := Suc (cat_id_seq ct)\<rparr>)\<rparr>, Inr ())
          else
            (st\<lparr>categories := Some (ct\<lparr>cat_id_seq := Suc (cat_id_seq ct),
                cat_rows := cat_rows ct @
                  [\<lparr>cat_id_col = Suc (cat_id_seq ct), cat_category_id = def_category_id d,
                    cat_name = def_name d, cat_code = def_code d, cat_icon = Some (def_icon d),
                    cat_color = Some (def_color d), cat_created_at = t\<rparr>]\<rparr>)\<rparr>, Inr ()))"

text \<open>
  The \<^verbatim>\<open>DO\<close> block that adds \<^verbatim>\<open>comics_category_id_fkey\<close> unless it exists. Adding it fails
  when a comic refers to a category that is not there.
\<close>

definition sql_add_foreign_key :: "timestamp \<Rightarrow> store \<Rightarrow> store \<times> (db_error + unit)" where
  "sql_add_foreign_key t st =
     (case comics st of
        None \<Rightarrow> (st, Inl UndefinedTable)
      | Some tb \<Rightarrow>
          if category_id_fkey tb then (st, Inr ())
          else if categories st = None then (st, Inl UndefinedTable)
          else if list_all (\<lambda>r. known_category st (category_id r)) (rows tb) then
            (st\<lparr>comics := Some (tb\<lparr>category_id_fkey := True\<rparr>)\<rparr>, Inr ())
          else (st, Inl ForeignKeyViolation))"

text \<open>\<^verbatim>\<open>SELECT * FROM categories ORDER BY name\<close>, names compared character by character.\<close>

definition sql_select_categories :: "timestamp \<Rightarrow> store \<Rightarrow> store \<times> (db_error + category list)" where
  "sql_select_categories t st =
     (case categories st of
        None \<Rightarrow> (st, Inl UndefinedTable)
      | Some ct \<Rightarrow> (st, Inr (sort_key cat_name (cat_rows ct))))"

section \<open>Schema initialisation\<close>

text \<open>
  \<^verbatim>\<open>initializeDatabase\<close>. The loop over \<^verbatim>\<open>defaultCategories\<close> stops at the first statement
  that throws. The body of the \<^verbatim>\<open>try\<close> block ends at the first error (the \<^verbatim>\<open>catch\<close> logs
  it); an error of the foreign-key block is caught on its own. The \<^verbatim>\<open>finally\<close> releases
  the client whenever \<^verbatim>\<open>pool.connect()\<close> gave one.
\<close>

fun insert_defaults :: "env \<Rightarrow> world \<Rightarrow> default_category list \<Rightarrow> world \<times> bool" where
  "insert_defaults e w [] = (w, True)"
| "insert_defaults e w (d # ds) =
     (case pool_query e w (sql_insert_category d) of
        (w', Inl err) \<Rightarrow> (w', False)
      | (w', Inr u) \<Rightarrow> insert_defaults e w' ds)"

definition initialize_steps :: "env \<Rightarrow> world \<Rightarrow> world" where
  "initialize_steps e w =
     (case pool_query e w sql_create_categories of
        (w1, Inl err) \<Rightarrow> w1
      | (w1, Inr u) \<Rightarrow>
     (case pool_query e w1 sql_create_comics of
        (w2, Inl err) \<Rightarrow> w2
      | (w2, Inr u) \<Rightarrow>
     (case pool_query e w2 (sql_count_table ''categories'') of
        (w3, Inl err) \<Rightarrow> w3
      | (w3, Inr n) \<Rightarrow>
     (case (if n = 0 then insert_defaults e w3 defaultCategories else (w3, True)) of
        (w4, False) \<Rightarrow> w4
      | (w4, True) \<Rightarrow> fst (pool_query e w4 sql_add_foreign_key)))))"

definition initializeDatabase :: "env \<Rightarrow> world \<Rightarrow> world" where
  "initializeDatabase e w =
     (case pool_connect e w of
        (w0, False) \<Rightarrow> w0
      | (w0, True) \<Rightarrow> client_release (initialize_steps e w0))"

section \<open>The routes\<close>

text \<open>
  \<^verbatim>\<open>GET /api/categories\<close>. The response is a JSON array: of the entries of
  \<^verbatim>\<open>defaultCategories\<close>, or of rows of the table. \<^verbatim>\<open>res.json\<close> answers with status 200.
\<close>

datatype category_json = Default default_category | Stored category

definition listCategories :: "env \<Rightarrow> world \<Rightarrow> world \<times> category_json list response" where
  "listCategories e w =
     (case pool_query e w (sql_table_exists ''categories'') of
        (w1, Inl err) \<Rightarrow> (w1, Json 200 (map Default defaultCategories))
      | (w1, Inr ex) \<Rightarrow>
          (case pool_query e (if \<not> ex then initializeDatabase e w1 else w1) sql_select_categories of
             (w2, Inl err) \<Rightarrow> (w2, Json 200 (map Default defaultCategories))
           | (w2, Inr rs) \<Rightarrow>
               if length rs = 0 then (w2, Json 200 (map Default defaultCategories))
               else (w2, Json 200 (map Stored rs))))"






text \<open>
  \<^verbatim>\<open>POST /api/comics\<close> of \<^verbatim>\<open>server.js\<close>. Reading \<^verbatim>\<open>result.rows[0].comic_id\<close> of an empty
  result would throw; an \<^verbatim>\<open>INSERT ... RETURNING\<close> that succeeds returns its row.
\<close>

definition createComic :: "env \<Rightarrow> world \<Rightarrow> body \<Rightarrow> world \<times> comic response" where
  "createComic e w b =
     (if \<not> truthy (body_title b) \<or> \<not> truthy (body_category_id b) then
        (w, Failure 400 ''Title and category_id are required'')
      else
        (case pool_query e w
                (sql_insert_comic False (random_id e (ops w)) (body_title b) (body_category_id b)
                   (Some (or_default (body_subcategory b) []))
                   (Some (or_default (body_chapter b) []))
                   (Some (or_default (body_rating b) (ustr ''none'')))
                   (Some (tags_or_empty (body_tags b)))
                   (Some (or_default (body_description b) []))) of
           (w', Inl err) \<Rightarrow> (w', Failure 500 ''Internal server error'')
         | (w', Inr []) \<Rightarrow> (w', Failure 500 ''Internal server error'')
         | (w', Inr (r # rs)) \<Rightarrow> (w', Json 201 r)))"

text \<open>
  \<^verbatim>\<open>POST /api/comics\<close> of the second file of the repository (its lines 209 to 247): no
  check of the required fields, and the chapter is passed as it came.
\<close>

definition createComic_second_file :: "env \<Rightarrow> world \<Rightarrow> body \<Rightarrow> world \<times> comic response" where
  "createComic_second_file e w b =
     (case pool_query e w
             (sql_insert_comic False (random_id e (ops w)) (body_title b) (body_category_id b)
                (Some (or_default (body_subcategory b) []))
                (body_chapter b)
                (Some (or_default (body_rating b) (ustr ''none'')))
                (Some (tags_or_empty (body_tags b)))
                (Some (or_default (body_description b) []))) of
        (w', Inl err) \<Rightarrow> (w', Failure 500 ''Internal server error'')
      | (w', Inr []) \<Rightarrow> (w', Failure 500 ''Internal server error'')
      | (w', Inr (r # rs)) \<Rightarrow> (w', Json 201 r))"

text \<open>\<^verbatim>\<open>PUT /api/comics/:id\<close>: the handler reads five fields of the body and no other.\<close>

definition updateComic :: "env \<Rightarrow> world \<Rightarrow> ustring \<Rightarrow> body \<Rightarrow> world \<times> comic response" where
  "updateComic e w ident b =
     (case pool_query e w
             (sql_update_comic (body_chapter b) (body_rating b) (body_title b) (body_tags b)
                (body_description b) ident) of
        (w', Inl err) \<Rightarrow> (w', Failure 500 ''Internal server error'')
      | (w', Inr []) \<Rightarrow> (w', Failure 404 ''Comic not found'')
      | (w', Inr (r # rs)) \<Rightarrow> (w', Json 200 r))"


text \<open>\<^verbatim>\<open>GET /api/stats\<close>.\<close>

record stats =
  totalItems :: nat
  totalCategories :: nat
  readingCount :: nat

definition count_items :: "env \<Rightarrow> world \<Rightarrow> world \<times> (db_error + nat \<times> nat)" where
  "count_items e w =
     (case pool_query e w sql_count_comics of
        (w1, Inl err) \<Rightarrow> (w1, Inl err)
      | (w1, Inr n) \<Rightarrow>
          (case pool_query e w1 sql_count_reading of
             (w2, Inl err) \<Rightarrow> (w2, Inl err)
           | (w2, Inr m) \<Rightarrow> (w2, Inr (n, m))))"

definition getStats :: "env \<Rightarrow> world \<Rightarrow> world \<times> stats response" where
  "getStats e w =
     (case pool_query e w sql_tables_exist of
        (w1, Inl err) \<Rightarrow> (w1, Failure 500 ''Internal server error'')
      | (w1, Inr (categories_exists, comics_exists)) \<Rightarrow>
          (case (if comics_exists then count_items e w1 else (w1, Inr (0, 0))) of
             (w2, Inl err) \<Rightarrow> (w2, Failure 500 ''Internal server error'')
           | (w2, Inr (items, reading_count)) \<Rightarrow>
               (case (if categories_exists then pool_query e w2 (sql_count_table ''categories'')
                      else (w2, Inr (length defaultCategories))) of
                  (w3, Inl err) \<Rightarrow> (w3, Failure 500 ''Internal server error'')
                | (w3, Inr cats) \<Rightarrow>
                    (w3, Json 200 \<lparr>totalItems = items, totalCategories = cats, readingCount = reading_count\<rparr>))))"

text \<open>
  \<^verbatim>\<open>POST /api/comics/import\<close>. \<open>None\<close> is a body whose \<^verbatim>\<open>comics\<close> is not an array. The
  response carries the number of imported rows (in its message) and the rows.
\<close>

fun import_loop :: "env \<Rightarrow> world \<Rightarrow> body list \<Rightarrow> comic list \<Rightarrow> world \<times> (db_error + comic list)" where
  "import_loop e w [] imported = (w, Inr imported)"
| "import_loop e w (c # cs) imported =
     (case pool_query e w
             (sql_insert_comic True (random_id e (ops w)) (body_title c) (body_category_id c)
                (Some (or_default (body_subcategory c) []))
                (body_chapter c)
                (Some (or_default (body_rating c) (ustr ''none'')))
                (Some (tags_or_empty (body_tags c)))
                (Some (or_default (body_description c) []))) of
        (w', Inl err) \<Rightarrow> (w', Inl err)
      | (w', Inr rs) \<Rightarrow> import_loop e w' cs (imported @ take 1 rs))"

definition bulkImport :: "env \<Rightarrow> world \<Rightarrow> body list option \<Rightarrow> world \<times> (nat \<times> comic list) response" where
  "bulkImport e w comics_field =
     (case comics_field of
        None \<Rightarrow> (w, Failure 400 ''Invalid data format'')
      | Some cs \<Rightarrow>
          (case import_loop e w cs [] of
             (w', Inl err) \<Rightarrow> (w', Failure 500 ''Internal server error'')
           | (w', Inr imported) \<Rightarrow> (w', Json 200 (length imported, imported))))"

text \<open>
  \<^verbatim>\<open>GET /api/debug/db\<close>. The count of one table that fails is kept as that table's
  entry; any other error leaves the \<^verbatim>\<open>try\<close> block for the \<^verbatim>\<open>catch\<close>, which answers 500.
  \<^verbatim>\<open>client.release()\<close> is the statement after the loop.
\<close>

record debug_info =
  timestamp :: timestamp
  tables :: "string list"
  rowCounts :: "(string \<times> (db_error + nat)) list"

fun count_tables :: "env \<Rightarrow> world \<Rightarrow> string list \<Rightarrow> world \<times> (string \<times> (db_error + nat)) list" where
  "count_tables e w [] = (w, [])"
| "count_tables e w (n # ns) =
     (case pool_query e w (sql_count_table n) of
        (w', r) \<Rightarrow> (case count_tables e w' ns of (w'', cs) \<Rightarrow> (w'', (n, r) # cs)))"

definition debugInfo :: "env \<Rightarrow> world \<Rightarrow> world \<times> debug_info response" where
  "debugInfo e w =
     (case pool_connect e w of
        (w0, False) \<Rightarrow> (w0, Failure 500 ''ERROR'')
      | (w0, True) \<Rightarrow>
          (case pool_query e w0 sql_now of
             (w1, Inl err) \<Rightarrow> (w1, Failure 500 ''ERROR'')
           | (w1, Inr ts) \<Rightarrow>
               (case pool_query e w1 sql_public_tables of
                  (w2, Inl err) \<Rightarrow> (w2, Failure 500 ''ERROR'')
                | (w2, Inr ns) \<Rightarrow>
                    (case count_tables e w2 ns of
                       (w3, cs) \<Rightarrow>
                         (client_release w3,
                          Json 200 \<lparr>timestamp = ts, tables = ns, rowCounts = cs\<rparr>)))))"

section \<open>What the update claims speak of\<close>

text \<open>
  The merge that a partial update is said to perform: a field the body gives replaces
  the stored one, a field it does not give is kept, and \<^verbatim>\<open>last_updated\<close> is refreshed.
\<close>

definition merge_partial :: "body \<Rightarrow> timestamp \<Rightarrow> comic \<Rightarrow> comic" where
  "merge_partial b t r =
     r\<lparr>chapter := (case body_chapter b of None \<Rightarrow> chapter r | Some x \<Rightarrow> Some x),
       rating := (case body_rating b of None \<Rightarrow> rating r | Some x \<Rightarrow> Some x),
       title := (case body_title b of None \<Rightarrow> title r | Some x \<Rightarrow> x),
       tags := (case body_tags b of None \<Rightarrow> tags r | Some x \<Rightarrow> Some x),
       description := (case body_description b of None \<Rightarrow> description r | Some x \<Rightarrow> Some x),
       last_updated := t\<rparr>"

text \<open>The fields of a comic that an update is said never to change.\<close>

definition same_identity :: "comic \<Rightarrow> comic \<Rightarrow> bool" where
  "same_identity r r' =
     (id_col r' = id_col r \<and> comic_id r' = comic_id r \<and> category_id r' = category_id r \<and>
      subcategory r' = subcategory r \<and> created_at r' = created_at r)"


section \<open>What the creation claim speaks of\<close>

text \<open>
  The row that a creation is said to insert: the generated \<^verbatim>\<open>comic_id\<close>, the given title
  and category, the defaults \<^verbatim>\<open>subcategory = ""\<close>, \<^verbatim>\<open>chapter = ""\<close>, \<^verbatim>\<open>rating = "none"\<close>,
  \<^verbatim>\<open>tags = []\<close>, \<^verbatim>\<open>description = ""\<close> for what the body does not give, and both timestamps
  at \<^verbatim>\<open>NOW()\<close>.
\<close>

definition created_row :: "env \<Rightarrow> world \<Rightarrow> comics_table \<Rightarrow> body \<Rightarrow> comic" where
  "created_row e w tb b =
     \<lparr>id_col = Suc (id_seq tb), comic_id = random_id e (ops w),
      title = (case body_title b of None \<Rightarrow> [] | Some s \<Rightarrow> s),
      category_id = (case body_category_id b of None \<Rightarrow> [] | Some s \<Rightarrow> s),
      subcategory = Some (case body_subcategory b of None \<Rightarrow> [] | Some s \<Rightarrow> s),
      chapter = Some (case body_chapter b of None \<Rightarrow> [] | Some s \<Rightarrow> s),
      rating = Some (case body_rating b of None \<Rightarrow> ustr ''none''
                     | Some s \<Rightarrow> if s = [] then ustr ''none'' else s),
      tags = Some (case body_tags b of None \<Rightarrow> [] | Some ts \<Rightarrow> ts),
      description = Some (case body_description b of None \<Rightarrow> [] | Some s \<Rightarrow> s),
      last_updated = now e (ops w), created_at = now e (ops w)\<rparr>"

text \<open>
  When the store takes the \<^verbatim>\<open>INSERT\<close>: it answers, the table exists, the strings fit
  their columns, the sequence of the \<^verbatim>\<open>id\<close> column is not at its end, the generated
  \<^verbatim>\<open>comic_id\<close> is new, and the category is known when the foreign key is in place.
\<close>

definition insert_accepted :: "env \<Rightarrow> world \<Rightarrow> comics_table \<Rightarrow> body \<Rightarrow> bool" where
  "insert_accepted e w tb b =
     (\<not> down e (ops w) \<and> comics (db w) = Some tb \<and>
      length (random_id e (ops w)) \<le> 100 \<and>
      id_seq tb < int4_max \<and>
      \<not> list_ex (\<lambda>x. comic_id x = random_id e (ops w)) (rows tb) \<and>
      fits 500 (body_title b) \<and> fits 50 (body_category_id b) \<and> fits 100 (body_subcategory b) \<and>
      fits 50 (body_chapter b) \<and> fits 20 (body_rating b) \<and>
      (category_id_fkey tb \<longrightarrow>
         known_category (db w) (case body_category_id b of None \<Rightarrow> [] | Some s \<Rightarrow> s)))"

section \<open>What the listing claims speak of\<close>






text \<open>A row of the categories table that holds an entry of \<^verbatim>\<open>defaultCategories\<close>.\<close>

definition seeded :: "default_category \<Rightarrow> category \<Rightarrow> bool" where
  "seeded d c =
     (cat_category_id c = def_category_id d \<and> cat_name c = def_name d \<and> cat_code c = def_code d \<and>
      cat_icon c = Some (def_icon d) \<and> cat_color c = Some (def_color d))"

section \<open>Sample data\<close>

text \<open>
  A store that answers every operation, in a locale whose lower case is that of the
  letters \<^verbatim>\<open>A\<close> to \<^verbatim>\<open>Z\<close> alone; an empty JSON body; and a world whose comics table holds
  one row. The closed instances of the theorems below are evaluated on them.
\<close>

definition ascii_lower :: "nat \<Rightarrow> nat" where
  "ascii_lower c = (if 65 \<le> c \<and> c \<le> 90 then c + 32 else c)"

definition env_up :: env where
  "env_up = \<lparr>down = (\<lambda>k. False), now = (\<lambda>k. 1700000000 + k),
              random_id = (\<lambda>k. ustr ''comic_1700000000000_'' @ replicate (Suc k) (of_char (CHR ''x''))),
              lc_lower = ascii_lower, inexact = (\<lambda>p l. None)\<rparr>"

definition empty_body :: body where
  "empty_body = \<lparr>body_title = None, body_category_id = None, body_subcategory = None,
     body_chapter = None, body_rating = None, body_tags = None, body_description = None,
     body_comic_id = None, body_created_at = None\<rparr>"

definition comic_a :: comic where
  "comic_a = \<lparr>id_col = 1, comic_id = ustr ''comic_1_a'', title = ustr ''A'', category_id = ustr ''ngon'',
     subcategory = Some [], chapter = Some (ustr ''1''), rating = Some (ustr ''none''), tags = Some [],
     description = Some [], last_updated = 10, created_at = 10\<rparr>"

definition table_a :: comics_table where
  "table_a = \<lparr>rows = [comic_a], id_seq = 1, category_id_fkey = False\<rparr>"

definition world_a :: world where
  "world_a = \<lparr>db = \<lparr>categories = None, comics = Some table_a\<rparr>,
               ops = 0, acquired = 0, released = 0\<rparr>"

definition empty_world :: world where
  "empty_world = \<lparr>db = \<lparr>categories = None, comics = None\<rparr>, ops = 0, acquired = 0, released = 0\<rparr>"

definition env_drop :: env where
  "env_drop = env_up\<lparr>down := (\<lambda>k. k = 1)\<rparr>"

definition env_late :: env where
  "env_late = env_up\<lparr>down := (\<lambda>k. k = 22)\<rparr>"

definition world_c :: world where
  "world_c = \<lparr>db = \<lparr>categories = Some \<lparr>cat_rows = [], cat_id_seq = 0\<rparr>, comics = None\<rparr>,
               ops = 0, acquired = 0, released = 0\<rparr>"

definition env_down :: env where
  "env_down = env_up\<lparr>down := (\<lambda>k. True)\<rparr>"

definition category_tu_tien :: category where
  "category_tu_tien = \<lparr>cat_id_col = 1, cat_category_id = ustr ''tu-tien'',
     cat_name = ustr ''TU TI'' @ [0x00CA] @ ustr ''N'',
     cat_code = ustr ''AAA'', cat_icon = Some (ustr ''fas fa-mountain''), cat_color = Some (ustr ''#22c55e''),
     cat_created_at = 5\<rparr>"

definition category_ngon :: category where
  "category_ngon = \<lparr>cat_id_col = 2, cat_category_id = ustr ''ngon'',
     cat_name = ustr ''NG'' @ [0x00D4] @ ustr ''N'',
     cat_code = ustr ''8888'', cat_icon = Some (ustr ''fas fa-heart''), cat_color = Some (ustr ''#f43f5e''),
     cat_created_at = 6\<rparr>"

definition world_two :: world where
  "world_two = \<lparr>db = \<lparr>categories = Some \<lparr>cat_rows = [category_tu_tien, category_ngon], cat_id_seq = 2\<rparr>,
                        comics = None\<rparr>,
                 ops = 0, acquired = 0, released = 0\<rparr>"








section \<open>Facts about the statements\<close>

lemma varchar_fits: "length s \<le> n \<Longrightarrow> varchar n s = Some s"
  by (simp add: varchar_def)

lemma assign_fits: "fits n v \<Longrightarrow> assign n v = Some v"
  by (cases v) (simp_all add: assign_def fits_def varchar_fits)



lemma query_down:
  "down e (ops w) \<Longrightarrow> pool_query e w stmt = (w\<lparr>ops := Suc (ops w)\<rparr>, Inl ConnectionError)"
  by (simp add: pool_query_def)

section \<open>Chapter patch\<close>






section \<open>Partial update\<close>






lemma merge_partial_comic_id [simp]: "comic_id (merge_partial b t r) = comic_id r"
  by (simp add: merge_partial_def)





section \<open>What a partial update cannot change\<close>

lemma put_set_identity: "same_identity r (put_set ch ra ti tg de t r)"
  by (simp add: put_set_def same_identity_def)

lemma list_all2_update:
  "(\<And>r. R r r) \<Longrightarrow> (\<And>r. R r (f r)) \<Longrightarrow> list_all2 R rs (map (\<lambda>r. if p r then f r else r) rs)"
  by (induction rs) simp_all

lemma update_comic_frame:
  "categories (fst (sql_update_comic ch ra ti tg de ident t st)) = categories st \<and>
   rel_option (\<lambda>tb tb'. id_seq tb' = id_seq tb \<and> category_id_fkey tb' = category_id_fkey tb \<and>
                 list_all2 same_identity (rows tb) (rows tb'))
     (comics st) (comics (fst (sql_update_comic ch ra ti tg de ident t st)))"
proof (cases "comics st")
  case None
  then show ?thesis by (simp add: sql_update_comic_def)
next
  case (Some tb)
  have refl: "list_all2 same_identity (rows tb) (rows tb)"
    by (simp add: list_all2_same same_identity_def)
  have upd: "\<And>f. (\<And>r. same_identity r (f r)) \<Longrightarrow>
      list_all2 same_identity (rows tb) (map (\<lambda>r. if comic_id r = ident then f r else r) (rows tb))"
    by (rule list_all2_update) (simp_all add: same_identity_def)
  show ?thesis
    using Some refl upd put_set_identity
    by (simp add: sql_update_comic_def run_update_def split: option.splits prod.splits)
qed

lemma update_comic_out:
  assumes "snd (sql_update_comic ch ra ti tg de ident t st) = Inr out" "r' \<in> set out"
  shows "comic_id r' = ident \<and> (\<exists>tb r. comics st = Some tb \<and> r \<in> set (rows tb) \<and> same_identity r r')"
proof -
  from assms(1) obtain tb ch' ra' ti' where
    tb: "comics st = Some tb" and
    out: "out = map (put_set ch' ra' ti' tg de t) (filter (\<lambda>r. comic_id r = ident) (rows tb))"
    by (auto simp: sql_update_comic_def run_update_def split: option.splits prod.splits)
  from assms(2) out obtain r where r: "r \<in> set (rows tb)" "comic_id r = ident"
    "r' = put_set ch' ra' ti' tg de t r"
    by auto
  have s: "same_identity r r'" unfolding r(3) by (rule put_set_identity)
  with r(2) have "comic_id r' = ident" by (simp add: same_identity_def)
  with tb r(1) s show ?thesis by blast
qed

text \<open>
  Claim C9. Whatever the body of \<^verbatim>\<open>PUT /api/comics/:id\<close> holds, and whether or not the
  store answers: the categories table is untouched, the comics table keeps its rows
  in place, each with its \<^verbatim>\<open>id\<close>, \<^verbatim>\<open>comic_id\<close>, \<^verbatim>\<open>category_id\<close>, \<^verbatim>\<open>subcategory\<close> and
  \<^verbatim>\<open>created_at\<close>, and a row in the response has the requested \<^verbatim>\<open>comic_id\<close> and these
  fields of a stored row. Only chapter, rating, title, tags, description and
  \<^verbatim>\<open>last_updated\<close> are left to change.
\<close>

theorem updateComic_frame:
  "categories (db (fst (updateComic e w ident b))) = categories (db w) \<and>
   rel_option (\<lambda>tb tb'. id_seq tb' = id_seq tb \<and> category_id_fkey tb' = category_id_fkey tb \<and>
                 list_all2 same_identity (rows tb) (rows tb'))
     (comics (db w)) (comics (db (fst (updateComic e w ident b)))) \<and>
   (\<forall>c r'. snd (updateComic e w ident b) = Json c r' \<longrightarrow>
      comic_id r' = ident \<and>
      (\<exists>tb r. comics (db w) = Some tb \<and> r \<in> set (rows tb) \<and> same_identity r r'))"
proof -
  let ?s = "sql_update_comic (body_chapter b) (body_rating b) (body_title b) (body_tags b)
                (body_description b) ident"
  let ?q = "pool_query e w ?s"
  have fst_eq: "db (fst (updateComic e w ident b)) = db (fst ?q)"
    by (simp add: updateComic_def split: prod.splits sum.splits list.splits)
  have refl: "rel_option (\<lambda>tb tb'. id_seq tb' = id_seq tb \<and> category_id_fkey tb' = category_id_fkey tb \<and>
                 list_all2 same_identity (rows tb) (rows tb')) (comics (db w)) (comics (db w))"
    by (cases "comics (db w)") (simp_all add: list_all2_same same_identity_def)
  have frame: "categories (db (fst ?q)) = categories (db w) \<and>
     rel_option (\<lambda>tb tb'. id_seq tb' = id_seq tb \<and> category_id_fkey tb' = category_id_fkey tb \<and>
                 list_all2 same_identity (rows tb) (rows tb')) (comics (db w)) (comics (db (fst ?q)))"
  proof (cases "down e (ops w)")
    case True
    with refl show ?thesis by (simp add: pool_query_def)
  next
    case False
    then show ?thesis
      using update_comic_frame [of "body_chapter b" "body_rating b" "body_title b" "body_tags b"
          "body_description b" ident "now e (ops w)" "db w"]
      by (simp add: pool_query_def)
  qed
  have resp: "\<forall>c r'. snd (updateComic e w ident b) = Json c r' \<longrightarrow>
      comic_id r' = ident \<and>
      (\<exists>tb r. comics (db w) = Some tb \<and> r \<in> set (rows tb) \<and> same_identity r r')"
  proof (intro allI impI)
    fix c r'
    assume j: "snd (updateComic e w ident b) = Json c r'"
    then obtain out where o: "snd ?q = Inr out" "r' \<in> set out"
      by (auto simp: updateComic_def split: prod.splits sum.splits list.splits)
    then have ru: "snd (?s (now e (ops w)) (db w)) = Inr out"
      by (auto simp: pool_query_def split: if_splits)
    from update_comic_out [OF ru o(2)]
    show "comic_id r' = ident \<and>
      (\<exists>tb r. comics (db w) = Some tb \<and> r \<in> set (rows tb) \<and> same_identity r r')" .
  qed
  from frame resp show ?thesis unfolding fst_eq by blast
qed

theorem updateComic_frame_witness:
  "category_id (comic_a\<lparr>chapter := Some (ustr ''5''), last_updated := 1700000000\<rparr>) = ustr ''ngon'' \<and>
   snd (updateComic env_up world_a (ustr ''comic_1_a'')
          (empty_body\<lparr>body_chapter := Some (ustr ''5''), body_category_id := Some (ustr ''tu-tien''),
             body_subcategory := Some (ustr ''x''), body_comic_id := Some (ustr ''other''),
             body_created_at := Some (ustr ''2020-01-01'')\<rparr>)) =
     Json 200 (comic_a\<lparr>chapter := Some (ustr ''5''), last_updated := 1700000000\<rparr>)"
  using updateComic_frame [of env_up world_a "ustr ''comic_1_a''"
      "empty_body\<lparr>body_chapter := Some (ustr ''5''), body_category_id := Some (ustr ''tu-tien''),
             body_subcategory := Some (ustr ''x''), body_comic_id := Some (ustr ''other''),
             body_created_at := Some (ustr ''2020-01-01'')\<rparr>"]
  by (simp add: updateComic_def pool_query_def sql_update_comic_def run_update_def put_set_def
      coalesce_def assign_def varchar_def ustr_def
      env_up_def empty_body_def comic_a_def table_a_def world_a_def)

section \<open>Bulk import\<close>

lemma no_arbiter: "\<not> arbiter_index comics_unique [''title'', ''category_id'']"
  by (simp add: arbiter_index_def comics_unique_def)

lemma upsert_rejected:
  "\<exists>err. sql_insert_comic True cid ti ca su ch ra tg de t st = (st, Inl err)"
  by (simp add: sql_insert_comic_def no_arbiter split: option.splits)

lemma upsert_query_rejected:
  "\<exists>err. pool_query e w (sql_insert_comic True cid ti ca su ch ra tg de) = (w\<lparr>ops := Suc (ops w)\<rparr>, Inl err)"
proof -
  obtain err where "sql_insert_comic True cid ti ca su ch ra tg de (now e (ops w)) (db w) = (db w, Inl err)"
    using upsert_rejected by blast
  then show ?thesis by (simp add: pool_query_def)
qed

text \<open>
  Claim C1. \<^verbatim>\<open>POST /api/comics/import\<close> with a non-empty array never imports a row: the
  comics table has no unique index on \<^verbatim>\<open>(title, category_id)\<close>, so the store rejects the
  first \<^verbatim>\<open>INSERT ... ON CONFLICT (title, category_id)\<close>, the loop stops, the response is
  500 and the store is as it was. The claim expects an upsert of every entry.
\<close>

theorem bulkImport_rejected:
  "snd (bulkImport e w (Some (c # cs))) = Failure 500 ''Internal server error'' \<and>
   db (fst (bulkImport e w (Some (c # cs)))) = db w"
proof -
  obtain err where
    "pool_query e w
             (sql_insert_comic True (random_id e (ops w)) (body_title c) (body_category_id c)
                (Some (or_default (body_subcategory c) []))
                (body_chapter c)
                (Some (or_default (body_rating c) (ustr ''none'')))
                (Some (tags_or_empty (body_tags c)))
                (Some (or_default (body_description c) []))) = (w\<lparr>ops := Suc (ops w)\<rparr>, Inl err)"
    using upsert_query_rejected by blast
  then show ?thesis by (simp add: bulkImport_def)
qed

theorem bulkImport_rejected_witness:
  "snd (bulkImport env_up (initializeDatabase env_up empty_world)
          (Some [empty_body\<lparr>body_title := Some (ustr ''A''), body_category_id := Some (ustr ''ngon''), body_chapter := Some (ustr ''1'')\<rparr>,
                 empty_body\<lparr>body_title := Some (ustr ''A''), body_category_id := Some (ustr ''ngon''), body_chapter := Some (ustr ''2'')\<rparr>])) =
     Failure 500 ''Internal server error'' \<and>
   bulkImport env_up world_a (Some []) = (world_a, Json 200 (0, []))"
  using bulkImport_rejected [of env_up "initializeDatabase env_up empty_world"
      "empty_body\<lparr>body_title := Some (ustr ''A''), body_category_id := Some (ustr ''ngon''), body_chapter := Some (ustr ''1'')\<rparr>"
      "[empty_body\<lparr>body_title := Some (ustr ''A''), body_category_id := Some (ustr ''ngon''), body_chapter := Some (ustr ''2'')\<rparr>]"]
  by (simp add: bulkImport_def)

section \<open>The debug route and the pool\<close>

text \<open>
  Claim C2. In \<^verbatim>\<open>GET /api/debug/db\<close>, when \<^verbatim>\<open>pool.connect()\<close> gives a client and one of
  the two queries before the loop fails, the handler answers 500 without releasing the
  client: one more client is acquired than released. The claim expects a release on
  every path.
\<close>

theorem debugInfo_leak:
  "\<not> down e (ops w) \<and> (down e (Suc (ops w)) \<or> down e (Suc (Suc (ops w)))) \<longrightarrow>
     acquired (fst (debugInfo e w)) = Suc (acquired w) \<and>
     released (fst (debugInfo e w)) = released w \<and>
     snd (debugInfo e w) = Failure 500 ''ERROR''"
  by (auto simp: debugInfo_def pool_connect_def pool_query_def sql_now_def)

theorem debugInfo_leak_witness:
  "acquired (fst (debugInfo env_drop world_a)) = 1 \<and>
   released (fst (debugInfo env_drop world_a)) = 0 \<and>
   snd (debugInfo env_drop world_a) = Failure 500 ''ERROR''"
  using debugInfo_leak [of env_drop world_a]
  by (simp add: env_drop_def env_up_def world_a_def)

section \<open>Creation\<close>

lemma or_default_fits: "fits n v \<Longrightarrow> length d \<le> n \<Longrightarrow> assign n (Some (or_default v d)) = Some (Some (or_default v d))"
  by (cases v) (auto simp: assign_def or_default_def fits_def varchar_def)

lemma truthy_Some: "truthy v \<Longrightarrow> \<exists>s. v = Some s \<and> s \<noteq> []"
  by (cases v) (simp_all add: truthy_def)

lemma createComic_created:
  assumes t: "truthy (body_title b)" and c: "truthy (body_category_id b)"
    and ok: "insert_accepted e w tb b"
  shows "createComic e w b =
     (w\<lparr>db := (db w)\<lparr>comics := Some (tb\<lparr>id_seq := Suc (id_seq tb), rows := rows tb @ [created_row e w tb b]\<rparr>)\<rparr>,
        ops := Suc (ops w)\<rparr>,
      Json 201 (created_row e w tb b))"
proof -
  obtain ti where ti: "body_title b = Some ti" "ti \<noteq> []" using t truthy_Some by blast
  obtain ca where ca: "body_category_id b = Some ca" "ca \<noteq> []" using c truthy_Some by blast
  have f: "assign 500 (body_title b) = Some (Some ti)" "assign 50 (body_category_id b) = Some (Some ca)"
    "varchar 100 (random_id e (ops w)) = Some (random_id e (ops w))"
    using ok ti ca by (simp_all add: insert_accepted_def assign_fits varchar_fits)
  have g: "assign 100 (Some (or_default (body_subcategory b) [])) = Some (Some (or_default (body_subcategory b) []))"
    "assign 50 (Some (or_default (body_chapter b) [])) = Some (Some (or_default (body_chapter b) []))"
    "assign 20 (Some (or_default (body_rating b) (ustr ''none''))) = Some (Some (or_default (body_rating b) (ustr ''none'')))"
    using ok by (simp_all add: insert_accepted_def or_default_fits ustr_def)
  have row: "\<lparr>id_col = Suc (id_seq tb), comic_id = random_id e (ops w), title = ti, category_id = ca,
        subcategory = Some (or_default (body_subcategory b) []),
        chapter = Some (or_default (body_chapter b) []),
        rating = Some (or_default (body_rating b) (ustr ''none'')),
        tags = Some (tags_or_empty (body_tags b)),
        description = Some (or_default (body_description b) []),
        last_updated = now e (ops w), created_at = now e (ops w)\<rparr> = created_row e w tb b"
    using ti ca by (simp add: created_row_def or_default_def tags_or_empty_def split: option.splits)
  have sel: "comic_id (created_row e w tb b) = random_id e (ops w)"
    "category_id (created_row e w tb b) = ca" "id_col (created_row e w tb b) = Suc (id_seq tb)"
    using ca by (simp_all add: created_row_def)
  have q: "sql_insert_comic False (random_id e (ops w)) (body_title b) (body_category_id b)
                   (Some (or_default (body_subcategory b) []))
                   (Some (or_default (body_chapter b) []))
                   (Some (or_default (body_rating b) (ustr ''none'')))
                   (Some (tags_or_empty (body_tags b)))
                   (Some (or_default (body_description b) [])) (now e (ops w)) (db w) =
      ((db w)\<lparr>comics := Some (tb\<lparr>id_seq := Suc (id_seq tb), rows := rows tb @ [created_row e w tb b]\<rparr>)\<rparr>,
       Inr [created_row e w tb b])"
    using ok ca sel unfolding sql_insert_comic_def f g
    by (simp add: insert_accepted_def insert_row_def row not_le)
  show ?thesis
    using t c ok by (simp add: createComic_def pool_query_def q insert_accepted_def)
qed

lemma createComic_not_400:
  "truthy (body_title b) \<Longrightarrow> truthy (body_category_id b) \<Longrightarrow>
   snd (createComic e w b) \<noteq> Failure 400 ''Title and category_id are required''"
  by (simp add: createComic_def split: prod.splits sum.splits list.splits)

text \<open>
  \<^verbatim>\<open>POST /api/comics\<close> of \<^verbatim>\<open>server.js\<close> does what claim C4 says: it answers 400, and
  touches nothing, exactly when the title or the category is absent or empty; otherwise,
  when the store takes the \<^verbatim>\<open>INSERT\<close>, it appends the row with the defaults and answers
  201 with that row.
\<close>

theorem createComic_contract:
  "(snd (createComic e w b) = Failure 400 ''Title and category_id are required'' \<longleftrightarrow>
      \<not> truthy (body_title b) \<or> \<not> truthy (body_category_id b)) \<and>
   (\<not> truthy (body_title b) \<or> \<not> truthy (body_category_id b) \<longrightarrow> fst (createComic e w b) = w) \<and>
   (truthy (body_title b) \<and> truthy (body_category_id b) \<and> insert_accepted e w tb b \<longrightarrow>
      snd (createComic e w b) = Json 201 (created_row e w tb b) \<and>
      comics (db (fst (createComic e w b))) =
        Some (tb\<lparr>id_seq := Suc (id_seq tb), rows := rows tb @ [created_row e w tb b]\<rparr>) \<and>
      categories (db (fst (createComic e w b))) = categories (db w))"
proof (intro conjI impI)
  show "snd (createComic e w b) = Failure 400 ''Title and category_id are required'' \<longleftrightarrow>
      \<not> truthy (body_title b) \<or> \<not> truthy (body_category_id b)"
    using createComic_not_400 [of b e w] by (auto simp: createComic_def)
next
  assume "\<not> truthy (body_title b) \<or> \<not> truthy (body_category_id b)"
  then show "fst (createComic e w b) = w" by (auto simp: createComic_def)
next
  assume h: "truthy (body_title b) \<and> truthy (body_category_id b) \<and> insert_accepted e w tb b"
  then have r: "createComic e w b =
     (w\<lparr>db := (db w)\<lparr>comics := Some (tb\<lparr>id_seq := Suc (id_seq tb), rows := rows tb @ [created_row e w tb b]\<rparr>)\<rparr>,
        ops := Suc (ops w)\<rparr>,
      Json 201 (created_row e w tb b))"
    using createComic_created by blast
  show "snd (createComic e w b) = Json 201 (created_row e w tb b)" by (simp add: r)
  show "comics (db (fst (createComic e w b))) =
        Some (tb\<lparr>id_seq := Suc (id_seq tb), rows := rows tb @ [created_row e w tb b]\<rparr>)" by (simp add: r)
  show "categories (db (fst (createComic e w b))) = categories (db w)" by (simp add: r)
qed

theorem createComic_contract_witness:
  "snd (createComic env_up world_a empty_body) = Failure 400 ''Title and category_id are required'' \<and>
   snd (createComic env_up world_a (empty_body\<lparr>body_title := Some (ustr ''B'')\<rparr>)) =
     Failure 400 ''Title and category_id are required'' \<and>
   snd (createComic env_up world_a (empty_body\<lparr>body_title := Some (ustr ''B''), body_category_id := Some (ustr ''ngon'')\<rparr>)) =
     Json 201 \<lparr>id_col = 2, comic_id = ustr ''comic_1700000000000_x'', title = ustr ''B'', category_id = ustr ''ngon'',
       subcategory = Some [], chapter = Some [], rating = Some (ustr ''none''), tags = Some [],
       description = Some [], last_updated = 1700000000, created_at = 1700000000\<rparr>"
  using createComic_contract [of env_up world_a empty_body table_a]
    createComic_contract [of env_up world_a "empty_body\<lparr>body_title := Some (ustr ''B'')\<rparr>" table_a]
    createComic_contract [of env_up world_a
      "empty_body\<lparr>body_title := Some (ustr ''B''), body_category_id := Some (ustr ''ngon'')\<rparr>" table_a]
  by (simp add: truthy_def fits_def insert_accepted_def created_row_def int4_max_def ustr_def
      env_up_def empty_body_def comic_a_def table_a_def world_a_def)

lemma insert_null_title:
  "\<exists>st' err. sql_insert_comic False cid None ca su ch ra tg de t st = (st', Inl err)"
  by (auto simp: sql_insert_comic_def assign_def split: option.splits)

lemma insert_null_category:
  "\<exists>st' err. sql_insert_comic False cid ti None su ch ra tg de t st = (st', Inl err)"
  by (auto simp: sql_insert_comic_def assign_def split: option.splits)

text \<open>
  Claim C4. The handler of \<^verbatim>\<open>POST /api/comics\<close> in the second file of the repository
  checks nothing: a body without a title or without a category reaches the store,
  which rejects the \<^verbatim>\<open>NULL\<close>, and the response is 500 where the claim, and the handler of
  \<^verbatim>\<open>server.js\<close>, answer 400. With both fields and no chapter it stores a \<^verbatim>\<open>NULL\<close> chapter.
\<close>

theorem createComic_second_file_unchecked:
  "(body_title b = None \<or> body_category_id b = None \<longrightarrow>
      snd (createComic_second_file e w b) = Failure 500 ''Internal server error'' \<and>
      snd (createComic e w b) = Failure 400 ''Title and category_id are required'')"
proof (intro impI conjI)
  assume h: "body_title b = None \<or> body_category_id b = None"
  then show "snd (createComic e w b) = Failure 400 ''Title and category_id are required''"
    by (auto simp: createComic_def truthy_def)
  let ?s = "sql_insert_comic False (random_id e (ops w)) (body_title b) (body_category_id b)
                (Some (or_default (body_subcategory b) []))
                (body_chapter b)
                (Some (or_default (body_rating b) (ustr ''none'')))
                (Some (tags_or_empty (body_tags b)))
                (Some (or_default (body_description b) []))"
  from h obtain st' err where "?s (now e (ops w)) (db w) = (st', Inl err)"
    using insert_null_title insert_null_category by metis
  then have "\<exists>w' err. pool_query e w ?s = (w', Inl err)"
    by (simp add: pool_query_def)
  then show "snd (createComic_second_file e w b) = Failure 500 ''Internal server error''"
    by (auto simp: createComic_second_file_def)
qed

theorem createComic_second_file_unchecked_witness:
  "snd (createComic_second_file env_up world_a (empty_body\<lparr>body_category_id := Some (ustr ''ngon'')\<rparr>)) =
     Failure 500 ''Internal server error'' \<and>
   snd (createComic env_up world_a (empty_body\<lparr>body_category_id := Some (ustr ''ngon'')\<rparr>)) =
     Failure 400 ''Title and category_id are required'' \<and>
   snd (createComic_second_file env_up world_a
          (empty_body\<lparr>body_title := Some (ustr ''B''), body_category_id := Some (ustr ''ngon'')\<rparr>)) =
     Json 201 \<lparr>id_col = 2, comic_id = ustr ''comic_1700000000000_x'', title = ustr ''B'', category_id = ustr ''ngon'',
       subcategory = Some [], chapter = None, rating = Some (ustr ''none''), tags = Some [],
       description = Some [], last_updated = 1700000000, created_at = 1700000000\<rparr>"
  using createComic_second_file_unchecked [of "empty_body\<lparr>body_category_id := Some (ustr ''ngon'')\<rparr>" env_up world_a]
  by (simp add: createComic_second_file_def pool_query_def sql_insert_comic_def insert_row_def
      assign_def varchar_def or_default_def tags_or_empty_def int4_max_def ustr_def
      env_up_def empty_body_def comic_a_def table_a_def world_a_def)

section \<open>Schema initialisation on a fresh store\<close>

lemma categories_arbiter: "arbiter_index categories_unique [''category_id'']"
  by (simp add: arbiter_index_def categories_unique_def)

lemma distinct_default_ids: "distinct (map def_category_id defaultCategories)"
  by (simp add: defaultCategories_def ustr_def)

lemma length_defaultCategories: "length defaultCategories = 16"
  by (simp add: defaultCategories_def)

lemma insert_category_up:
  assumes "\<not> down e (ops w)" "categories (db w) = Some ct"
    "def_category_id d \<notin> set (map cat_category_id (cat_rows ct))"
    "cat_id_seq ct < int4_max"
  shows "\<exists>w' ct' c. pool_query e w (sql_insert_category d) = (w', Inr ()) \<and>
           categories (db w') = Some ct' \<and>
           cat_rows ct' = cat_rows ct @ [c] \<and> seeded d c \<and>
           cat_id_seq ct' = Suc (cat_id_seq ct) \<and>
           comics (db w') = comics (db w) \<and> ops w' = Suc (ops w) \<and>
           acquired w' = acquired w \<and> released w' = released w"
proof -
  have "\<not> list_ex (\<lambda>x. cat_category_id x = def_category_id d) (cat_rows ct)"
    using assms(3) by (force simp: list_ex_iff)
  then show ?thesis
    using assms(1,2,4)
    by (simp add: pool_query_def sql_insert_category_def categories_arbiter seeded_def not_le)
qed

lemma insert_defaults_up:
  "(\<forall>k. ops w \<le> k \<and> k < ops w + length ds \<longrightarrow> \<not> down e k) \<Longrightarrow>
   categories (db w) = Some ct \<Longrightarrow> distinct (map def_category_id ds) \<Longrightarrow>
   set (map def_category_id ds) \<inter> set (map cat_category_id (cat_rows ct)) = {} \<Longrightarrow>
   cat_id_seq ct + length ds \<le> int4_max \<Longrightarrow>
   \<exists>w' ct' cs. insert_defaults e w ds = (w', True) \<and>
         categories (db w') = Some ct' \<and>
         cat_rows ct' = cat_rows ct @ cs \<and> list_all2 seeded ds cs \<and>
         comics (db w') = comics (db w) \<and> ops w' = ops w + length ds \<and>
         acquired w' = acquired w \<and> released w' = released w"
proof (induction ds arbitrary: w ct)
  case Nil
  then show ?case by simp
next
  case (Cons d ds)
  have up: "\<not> down e (ops w)" using Cons.prems(1) by simp
  have new: "def_category_id d \<notin> set (map cat_category_id (cat_rows ct))"
    using Cons.prems(4) by auto
  have seq: "cat_id_seq ct < int4_max" using Cons.prems(5) by simp
  from insert_category_up [OF up Cons.prems(2) new seq] obtain w1 ct1 c where
    s: "pool_query e w (sql_insert_category d) = (w1, Inr ())" "categories (db w1) = Some ct1"
      "cat_rows ct1 = cat_rows ct @ [c]" "seeded d c" "cat_id_seq ct1 = Suc (cat_id_seq ct)"
      "comics (db w1) = comics (db w)" "ops w1 = Suc (ops w)"
      "acquired w1 = acquired w" "released w1 = released w"
    by blast
  have up1: "\<forall>k. ops w1 \<le> k \<and> k < ops w1 + length ds \<longrightarrow> \<not> down e k"
    using Cons.prems(1) s(7) by simp
  have d: "distinct (map def_category_id ds)" using Cons.prems(3) by simp
  have c: "cat_category_id c = def_category_id d" using s(4) by (simp add: seeded_def)
  have i: "set (map def_category_id ds) \<inter> set (map cat_category_id (cat_rows ct1)) = {}"
    using Cons.prems(3,4) s(3) c by auto
  have q: "cat_id_seq ct1 + length ds \<le> int4_max" using Cons.prems(5) s(5) by simp
  from Cons.IH [OF up1 s(2) d i q] obtain w' ct' cs where
    r: "insert_defaults e w1 ds = (w', True)" "categories (db w') = Some ct'"
      "cat_rows ct' = cat_rows ct1 @ cs" "list_all2 seeded ds cs"
      "comics (db w') = comics (db w1)" "ops w' = ops w1 + length ds"
      "acquired w' = acquired w1" "released w' = released w1"
    by blast
  have run: "insert_defaults e w (d # ds) = (w', True)" by (simp add: s(1) r(1))
  have rows: "cat_rows ct' = cat_rows ct @ (c # cs)" using r(3) s(3) by simp
  have rel: "list_all2 seeded (d # ds) (c # cs)" using s(4) r(4) by simp
  have rest: "comics (db w') = comics (db w)" "ops w' = ops w + length (d # ds)"
    "acquired w' = acquired w" "released w' = released w"
    using r s by simp_all
  from run r(2) rows rel rest show ?case by blast
qed

lemma initializeDatabase_fresh:
  assumes up: "\<forall>k. ops w \<le> k \<and> k < ops w + 21 \<longrightarrow> \<not> down e k"
    and none: "categories (db w) = None" "comics (db w) = None"
  shows "\<exists>ct. categories (db (initializeDatabase e w)) = Some ct \<and>
           list_all2 seeded defaultCategories (cat_rows ct) \<and>
           comics (db (initializeDatabase e w)) = Some \<lparr>rows = [], id_seq = 0, category_id_fkey = True\<rparr> \<and>
           ops (initializeDatabase e w) = ops w + 21 \<and>
           acquired (initializeDatabase e w) = Suc (acquired w) \<and>
           released (initializeDatabase e w) = Suc (released w)"
proof -
  have u: "\<not> down e (ops w)" "\<not> down e (Suc (ops w))" "\<not> down e (Suc (Suc (ops w)))"
    "\<not> down e (Suc (Suc (Suc (ops w))))" "\<not> down e (ops w + 20)"
    using up by simp_all
  define w0 where "w0 = w\<lparr>ops := Suc (ops w), acquired := Suc (acquired w)\<rparr>"
  have c: "pool_connect e w = (w0, True)" using u by (simp add: pool_connect_def w0_def)
  define w1 where "w1 = w0\<lparr>db := (db w0)\<lparr>categories := Some \<lparr>cat_rows = [], cat_id_seq = 0\<rparr>\<rparr>, ops := Suc (ops w0)\<rparr>"
  have q1: "pool_query e w0 sql_create_categories = (w1, Inr ())"
    using u none by (simp add: pool_query_def sql_create_categories_def w0_def w1_def)
  define w2 where "w2 = w1\<lparr>db := (db w1)\<lparr>comics := Some \<lparr>rows = [], id_seq = 0, category_id_fkey = False\<rparr>\<rparr>,
                          ops := Suc (ops w1)\<rparr>"
  have q2: "pool_query e w1 sql_create_comics = (w2, Inr ())"
    using u none by (simp add: pool_query_def sql_create_comics_def w0_def w1_def w2_def)
  define w3 where "w3 = w2\<lparr>db := db w2, ops := Suc (ops w2)\<rparr>"
  have q3: "pool_query e w2 (sql_count_table ''categories'') = (w3, Inr 0)"
    using u by (simp add: pool_query_def sql_count_table_def w0_def w1_def w2_def w3_def)
  have w3: "categories (db w3) = Some \<lparr>cat_rows = [], cat_id_seq = 0\<rparr>"
    "comics (db w3) = Some \<lparr>rows = [], id_seq = 0, category_id_fkey = False\<rparr>"
    "acquired w3 = Suc (acquired w)" "released w3 = released w" "ops w3 = ops w + 4"
    by (simp_all add: w0_def w1_def w2_def w3_def)
  have up3: "\<forall>k. ops w3 \<le> k \<and> k < ops w3 + length defaultCategories \<longrightarrow> \<not> down e k"
    using up by (simp add: w3(5) length_defaultCategories)
  have seq: "cat_id_seq \<lparr>cat_rows = [], cat_id_seq = 0\<rparr> + length defaultCategories \<le> int4_max"
    by (simp add: length_defaultCategories int4_max_def)
  from insert_defaults_up [OF up3 w3(1) distinct_default_ids _ seq] obtain w4 ct cs where
    r: "insert_defaults e w3 defaultCategories = (w4, True)" "categories (db w4) = Some ct"
      "cat_rows ct = cs" "list_all2 seeded defaultCategories cs"
      "comics (db w4) = comics (db w3)" "ops w4 = ops w3 + length defaultCategories"
      "acquired w4 = acquired w3" "released w4 = released w3"
    by auto
  have "ops w4 = ops w + 20" using r(6) w3(5) by (simp add: length_defaultCategories)
  then have u4: "\<not> down e (ops w4)" using u(5) by simp
  define w5 where "w5 = fst (pool_query e w4 sql_add_foreign_key)"
  have w5: "categories (db w5) = Some ct"
    "comics (db w5) = Some \<lparr>rows = [], id_seq = 0, category_id_fkey = True\<rparr>"
    "acquired w5 = acquired w4" "released w5 = released w4" "ops w5 = Suc (ops w4)"
    using u4 r(2,5) w3(2) by (simp_all add: w5_def pool_query_def sql_add_foreign_key_def)
  have "initialize_steps e w0 = w5"
    by (simp add: initialize_steps_def q1 q2 q3 r(1) w5_def)
  then have i: "initializeDatabase e w = client_release w5"
    by (simp add: initializeDatabase_def c)
  have o: "ops w5 = ops w + 21"
    using w5(5) r(6) w3(5) by (simp add: length_defaultCategories)
  from w5 r w3 o show ?thesis unfolding i by (simp add: client_release_def)
qed

lemma initializeDatabase_no_table:
  assumes "categories (db w) = None" "down e (ops w) \<or> down e (Suc (ops w))"
  shows "categories (db (initializeDatabase e w)) = None"
proof (cases "down e (ops w)")
  case True
  with assms(1) show ?thesis by (simp add: initializeDatabase_def pool_connect_def)
next
  case False
  with assms(2) have d: "down e (Suc (ops w))" by simp
  from False d assms(1) show ?thesis
    by (simp add: initializeDatabase_def pool_connect_def initialize_steps_def pool_query_def
        client_release_def)
qed

lemma pool_query_counters:
  "acquired (fst (pool_query e w stmt)) = acquired w \<and> released (fst (pool_query e w stmt)) = released w"
  by (simp add: pool_query_def)

lemma insert_defaults_counters:
  "acquired (fst (insert_defaults e w ds)) = acquired w \<and>
   released (fst (insert_defaults e w ds)) = released w"
proof (induction ds arbitrary: w)
  case Nil
  then show ?case by simp
next
  case (Cons d ds)
  obtain w1 r where q: "pool_query e w (sql_insert_category d) = (w1, r)"
    by (cases "pool_query e w (sql_insert_category d)")
  have c: "acquired w1 = acquired w" "released w1 = released w"
    using pool_query_counters [of e w "sql_insert_category d"] q by simp_all
  show ?case
  proof (cases r)
    case (Inl err)
    with q c show ?thesis by simp
  next
    case (Inr u)
    with q c Cons.IH [of w1] show ?thesis by simp
  qed
qed

lemma initialize_steps_counters:
  "acquired (initialize_steps e w) = acquired w \<and> released (initialize_steps e w) = released w"
proof -
  have a: "\<And>w stmt w' r. pool_query e w stmt = (w', r) \<Longrightarrow> acquired w' = acquired w \<and> released w' = released w"
    using pool_query_counters by (metis fst_conv)
  have b: "\<And>w ds w' r. insert_defaults e w ds = (w', r) \<Longrightarrow> acquired w' = acquired w \<and> released w' = released w"
    using insert_defaults_counters by (metis fst_conv)
  show ?thesis
    unfolding initialize_steps_def
    by (auto split: prod.splits sum.splits bool.splits if_splits dest!: a b
        simp: pool_query_counters)
qed

lemma initializeDatabase_releases:
  "acquired (initializeDatabase e w) + released w = released (initializeDatabase e w) + acquired w"
  by (simp add: initializeDatabase_def pool_connect_def client_release_def initialize_steps_counters)

section \<open>Listing the categories\<close>

lemma sort_key_empty: "(sort_key f xs = []) = (xs = [])"
  by (metis length_0_conv length_sort)

lemma select_categories_result:
  "pool_query e w sql_select_categories = (w', Inr rs) \<Longrightarrow>
   \<exists>ct. categories (db w) = Some ct \<and> rs = sort_key cat_name (cat_rows ct) \<and> db w' = db w"
  by (auto simp: pool_query_def sql_select_categories_def split: if_splits option.splits)

lemma select_categories_up:
  "\<not> down e (ops w) \<Longrightarrow> categories (db w) = Some ct \<Longrightarrow>
   pool_query e w sql_select_categories = (w\<lparr>db := db w, ops := Suc (ops w)\<rparr>, Inr (sort_key cat_name (cat_rows ct)))"
  by (simp add: pool_query_def sql_select_categories_def)

lemma table_exists_query:
  "pool_query e w (sql_table_exists n) =
     (if down e (ops w) then (w\<lparr>ops := Suc (ops w)\<rparr>, Inl ConnectionError)
      else (w\<lparr>db := db w, ops := Suc (ops w)\<rparr>, Inr (table_exists n (db w))))"
  by (simp add: pool_query_def sql_table_exists_def)

lemma listCategories_shape:
  "\<exists>xs. snd (listCategories e w) = Json 200 xs \<and>
     (xs = map Default defaultCategories \<or>
      (\<exists>ct. categories (db (fst (listCategories e w))) = Some ct \<and> cat_rows ct \<noteq> [] \<and>
            xs = map Stored (sort_key cat_name (cat_rows ct))))"
proof (cases "pool_query e w (sql_table_exists ''categories'')")
  case (Pair w1 r1)
  show ?thesis
  proof (cases r1)
    case (Inl err)
    with Pair show ?thesis by (simp add: listCategories_def)
  next
    case (Inr ex)
    define w1' where "w1' = (if \<not> ex then initializeDatabase e w1 else w1)"
    show ?thesis
    proof (cases "pool_query e w1' sql_select_categories")
      case p2: (Pair w2 r2)
      show ?thesis
      proof (cases r2)
        case (Inl err)
        with Pair Inr p2 show ?thesis by (simp add: listCategories_def w1'_def)
      next
        case r: (Inr rs)
        from select_categories_result [OF p2 [unfolded r]] obtain ct where
          ct: "categories (db w1') = Some ct" "rs = sort_key cat_name (cat_rows ct)" "db w2 = db w1'"
          by blast
        show ?thesis
        proof (cases "rs = []")
          case True
          with Pair Inr p2 r show ?thesis by (simp add: listCategories_def w1'_def)
        next
          case False
          then have ne: "cat_rows ct \<noteq> []" using ct(2) by (auto simp: sort_key_empty)
          have "listCategories e w = (w2, Json 200 (map Stored rs))"
            using Pair Inr p2 r False by (simp add: listCategories_def w1'_def)
          with ct ne show ?thesis by simp
        qed
      qed
    qed
  qed
qed

lemma listCategories_first_down:
  "down e (ops w) \<Longrightarrow> snd (listCategories e w) = Json 200 (map Default defaultCategories)"
  by (simp add: listCategories_def table_exists_query)

lemma listCategories_present:
  assumes "\<not> down e (ops w)" "categories (db w) = Some ct"
  shows "listCategories e w =
     (if down e (Suc (ops w)) then (w\<lparr>db := db w, ops := Suc (Suc (ops w))\<rparr>, Json 200 (map Default defaultCategories))
      else (w\<lparr>db := db w, ops := Suc (Suc (ops w))\<rparr>,
            Json 200 (if cat_rows ct = [] then map Default defaultCategories
                      else map Stored (sort_key cat_name (cat_rows ct)))))"
proof -
  define w1 where "w1 = w\<lparr>db := db w, ops := Suc (ops w)\<rparr>"
  have w1: "ops w1 = Suc (ops w)" "categories (db w1) = Some ct" "db w1 = db w"
    using assms by (simp_all add: w1_def)
  have q1: "pool_query e w (sql_table_exists ''categories'') = (w1, Inr True)"
    using assms by (simp add: table_exists_query table_exists_def w1_def)
  have l: "listCategories e w =
      (case pool_query e w1 sql_select_categories of
             (w2, Inl err) \<Rightarrow> (w2, Json 200 (map Default defaultCategories))
           | (w2, Inr rs) \<Rightarrow>
               if rs = [] then (w2, Json 200 (map Default defaultCategories))
               else (w2, Json 200 (map Stored rs)))"
    by (simp add: listCategories_def q1)
  show ?thesis
  proof (cases "down e (Suc (ops w))")
    case True
    then have "pool_query e w1 sql_select_categories = (w1\<lparr>ops := Suc (ops w1)\<rparr>, Inl ConnectionError)"
      using query_down [of e w1] w1 by simp
    with True show ?thesis by (simp add: l w1_def)
  next
    case False
    then have "pool_query e w1 sql_select_categories =
        (w1\<lparr>db := db w1, ops := Suc (ops w1)\<rparr>, Inr (sort_key cat_name (cat_rows ct)))"
      using select_categories_up [of e w1 ct] w1 by simp
    with False show ?thesis by (simp add: l w1_def sort_key_empty)
  qed
qed

lemma listCategories_absent:
  assumes "\<not> down e (ops w)" "categories (db w) = None"
  shows "listCategories e w =
     (case pool_query e (initializeDatabase e (w\<lparr>ops := Suc (ops w)\<rparr>)) sql_select_categories of
        (w2, Inl err) \<Rightarrow> (w2, Json 200 (map Default defaultCategories))
      | (w2, Inr rs) \<Rightarrow>
          if rs = [] then (w2, Json 200 (map Default defaultCategories))
          else (w2, Json 200 (map Stored rs)))"
proof -
  have "w\<lparr>db := db w, ops := Suc (ops w)\<rparr> = w\<lparr>ops := Suc (ops w)\<rparr>" by simp
  then have q1: "pool_query e w (sql_table_exists ''categories'') = (w\<lparr>ops := Suc (ops w)\<rparr>, Inr False)"
    using assms by (simp add: table_exists_query table_exists_def)
  show ?thesis
    by (simp add: listCategories_def q1)
qed

lemma listCategories_healed:
  assumes "\<not> down e (ops w)" "categories (db w) = None"
    and w': "w' = initializeDatabase e (w\<lparr>ops := Suc (ops w)\<rparr>)"
  shows "down e (ops w') \<or> categories (db w') = None \<Longrightarrow>
           snd (listCategories e w) = Json 200 (map Default defaultCategories)"
    and "\<not> down e (ops w') \<Longrightarrow> categories (db w') = Some ct' \<Longrightarrow>
           listCategories e w =
             (w'\<lparr>db := db w', ops := Suc (ops w')\<rparr>,
              Json 200 (if cat_rows ct' = [] then map Default defaultCategories
                        else map Stored (sort_key cat_name (cat_rows ct'))))"
proof -
  have l: "listCategories e w =
     (case pool_query e w' sql_select_categories of
        (w2, Inl err) \<Rightarrow> (w2, Json 200 (map Default defaultCategories))
      | (w2, Inr rs) \<Rightarrow>
          if rs = [] then (w2, Json 200 (map Default defaultCategories))
          else (w2, Json 200 (map Stored rs)))"
    unfolding w' using assms(1,2) by (rule listCategories_absent)
  {
    assume "down e (ops w') \<or> categories (db w') = None"
    then have "\<exists>w2 err. pool_query e w' sql_select_categories = (w2, Inl err)"
      by (auto simp: pool_query_def sql_select_categories_def)
    then show "snd (listCategories e w) = Json 200 (map Default defaultCategories)"
      by (auto simp: l)
  }
  {
    assume "\<not> down e (ops w')" "categories (db w') = Some ct'"
    then have "pool_query e w' sql_select_categories =
        (w'\<lparr>db := db w', ops := Suc (ops w')\<rparr>, Inr (sort_key cat_name (cat_rows ct')))"
      by (rule select_categories_up)
    then show "listCategories e w =
             (w'\<lparr>db := db w', ops := Suc (ops w')\<rparr>,
              Json 200 (if cat_rows ct' = [] then map Default defaultCategories
                        else map Stored (sort_key cat_name (cat_rows ct'))))"
      by (simp add: l sort_key_empty)
  }
qed

lemma listCategories_fresh:
  assumes "\<not> down e (ops w)" "categories (db w) = None" "comics (db w) = None"
    "\<forall>k. Suc (ops w) \<le> k \<and> k < ops w + 22 \<longrightarrow> \<not> down e k"
  shows "down e (ops w + 22) \<Longrightarrow> snd (listCategories e w) = Json 200 (map Default defaultCategories)"
    and "\<not> down e (ops w + 22) \<Longrightarrow>
      \<exists>cs. list_all2 seeded defaultCategories cs \<and>
           snd (listCategories e w) = Json 200 (map Stored (sort_key cat_name cs))"
proof -
  define w' where "w' = initializeDatabase e (w\<lparr>ops := Suc (ops w)\<rparr>)"
  have up: "\<forall>k. ops (w\<lparr>ops := Suc (ops w)\<rparr>) \<le> k \<and> k < ops (w\<lparr>ops := Suc (ops w)\<rparr>) + 21 \<longrightarrow> \<not> down e k"
    using assms(4) by simp
  from initializeDatabase_fresh [OF up] assms(2,3) obtain ct where
    ct: "categories (db w') = Some ct" "list_all2 seeded defaultCategories (cat_rows ct)"
      "ops w' = ops w + 22"
    unfolding w'_def by auto
  have ne: "cat_rows ct \<noteq> []"
    using list_all2_lengthD [OF ct(2)] length_defaultCategories by auto
  {
    assume "down e (ops w + 22)"
    then have "down e (ops w') \<or> categories (db w') = None" using ct(3) by simp
    then show "snd (listCategories e w) = Json 200 (map Default defaultCategories)"
      by (rule listCategories_healed(1) [OF assms(1,2) w'_def])
  }
  {
    assume "\<not> down e (ops w + 22)"
    then have "\<not> down e (ops w')" using ct(3) by simp
    from listCategories_healed(2) [OF assms(1,2) w'_def this ct(1)] ne
    have "snd (listCategories e w) = Json 200 (map Stored (sort_key cat_name (cat_rows ct)))"
      by simp
    with ct(2) show "\<exists>cs. list_all2 seeded defaultCategories cs \<and>
           snd (listCategories e w) = Json 200 (map Stored (sort_key cat_name cs))"
      by blast
  }
qed

text \<open>
  Claim C6, as amended. \<^verbatim>\<open>GET /api/categories\<close> always answers 200, with the sixteen
  entries of \<^verbatim>\<open>defaultCategories\<close> or with the rows of a non-empty categories table in
  the order of their names. It answers with the defaults when the store is
  unreachable at the first query, and when the table exists and the store is
  unreachable at the second. When the table exists and the store answers both queries,
  the response is all the rows of the table in the order of their names if there is
  one, and the defaults if there is none; the store is as it was.

  When the store answers the first query and the table does not exist, the handler
  runs \<^verbatim>\<open>initializeDatabase\<close> and then its query on the store that this leaves: the
  response is the defaults when that query fails (the store is unreachable then, or
  the table is still absent, as it is when the connection or the \<^verbatim>\<open>CREATE TABLE\<close> of
  \<^verbatim>\<open>initializeDatabase\<close> has failed), and otherwise all the rows that the table then
  holds, in the order of their names, or the defaults if it holds none. On a store
  without tables that answers the twenty-one operations of \<^verbatim>\<open>initializeDatabase\<close>, the
  response is the sixteen stored rows that hold the entries of \<^verbatim>\<open>defaultCategories\<close>, in
  the order of their names, when the store answers the query after them, and the
  defaults when it does not.
\<close>

theorem listCategories_degrades:
  "(\<exists>xs. snd (listCategories e w) = Json 200 xs \<and>
      (xs = map Default defaultCategories \<or>
       (\<exists>ct ys. categories (db (fst (listCategories e w))) = Some ct \<and> cat_rows ct \<noteq> [] \<and>
             xs = map Stored ys \<and> sorted (map cat_name ys) \<and> mset ys = mset (cat_rows ct)))) \<and>
   (down e (ops w) \<longrightarrow> snd (listCategories e w) = Json 200 (map Default defaultCategories)) \<and>
   (\<not> down e (ops w) \<and> categories (db w) = Some ct \<and> down e (Suc (ops w)) \<longrightarrow>
      snd (listCategories e w) = Json 200 (map Default defaultCategories)) \<and>
   (\<not> down e (ops w) \<and> categories (db w) = Some ct \<and> \<not> down e (Suc (ops w)) \<longrightarrow>
      db (fst (listCategories e w)) = db w \<and>
      (\<exists>ys. sorted (map cat_name ys) \<and> mset ys = mset (cat_rows ct) \<and>
         snd (listCategories e w) =
           Json 200 (if cat_rows ct = [] then map Default defaultCategories else map Stored ys))) \<and>
   (\<not> down e (ops w) \<and> categories (db w) = None \<longrightarrow>
      (let w' = initializeDatabase e (w\<lparr>ops := Suc (ops w)\<rparr>)
       in (down e (ops w') \<or> categories (db w') = None \<longrightarrow>
             snd (listCategories e w) = Json 200 (map Default defaultCategories)) \<and>
          (\<forall>ct'. \<not> down e (ops w') \<and> categories (db w') = Some ct' \<longrightarrow>
             db (fst (listCategories e w)) = db w' \<and>
             (\<exists>ys. sorted (map cat_name ys) \<and> mset ys = mset (cat_rows ct') \<and>
                snd (listCategories e w) =
                  Json 200 (if cat_rows ct' = [] then map Default defaultCategories
                            else map Stored ys))))) \<and>
   (\<not> down e (ops w) \<and> categories (db w) = None \<and>
    (down e (Suc (ops w)) \<or> down e (Suc (Suc (ops w)))) \<longrightarrow>
      snd (listCategories e w) = Json 200 (map Default defaultCategories)) \<and>
   (\<not> down e (ops w) \<and> categories (db w) = None \<and> comics (db w) = None \<and>
    (\<forall>k. Suc (ops w) \<le> k \<and> k < ops w + 22 \<longrightarrow> \<not> down e k) \<longrightarrow>
      (down e (ops w + 22) \<longrightarrow>
         snd (listCategories e w) = Json 200 (map Default defaultCategories)) \<and>
      (\<not> down e (ops w + 22) \<longrightarrow>
         (\<exists>cs ys. list_all2 seeded defaultCategories cs \<and> mset ys = mset cs \<and>
            sorted (map cat_name ys) \<and> length ys = 16 \<and>
            snd (listCategories e w) = Json 200 (map Stored ys)))) \<and>
   length defaultCategories = 16"
proof -
  have c1: "\<exists>xs. snd (listCategories e w) = Json 200 xs \<and>
      (xs = map Default defaultCategories \<or>
       (\<exists>ct ys. categories (db (fst (listCategories e w))) = Some ct \<and> cat_rows ct \<noteq> [] \<and>
             xs = map Stored ys \<and> sorted (map cat_name ys) \<and> mset ys = mset (cat_rows ct)))"
  proof -
    obtain xs where xs: "snd (listCategories e w) = Json 200 xs"
       "xs = map Default defaultCategories \<or>
        (\<exists>ct. categories (db (fst (listCategories e w))) = Some ct \<and> cat_rows ct \<noteq> [] \<and>
              xs = map Stored (sort_key cat_name (cat_rows ct)))"
      using listCategories_shape by blast
    from xs(2) have "xs = map Default defaultCategories \<or>
         (\<exists>ct ys. categories (db (fst (listCategories e w))) = Some ct \<and> cat_rows ct \<noteq> [] \<and>
               xs = map Stored ys \<and> sorted (map cat_name ys) \<and> mset ys = mset (cat_rows ct))"
    proof
      assume "xs = map Default defaultCategories"
      then show ?thesis by simp
    next
      assume "\<exists>ct. categories (db (fst (listCategories e w))) = Some ct \<and> cat_rows ct \<noteq> [] \<and>
              xs = map Stored (sort_key cat_name (cat_rows ct))"
      then obtain ct where ct: "categories (db (fst (listCategories e w))) = Some ct" "cat_rows ct \<noteq> []"
        "xs = map Stored (sort_key cat_name (cat_rows ct))" by blast
      have "sorted (map cat_name (sort_key cat_name (cat_rows ct)))"
        "mset (sort_key cat_name (cat_rows ct)) = mset (cat_rows ct)"
        by simp_all
      with ct show ?thesis by blast
    qed
    with xs(1) show ?thesis by blast
  qed
  have c2: "down e (ops w) \<longrightarrow> snd (listCategories e w) = Json 200 (map Default defaultCategories)"
    using listCategories_first_down by blast
  have c3: "\<not> down e (ops w) \<and> categories (db w) = Some ct \<and> down e (Suc (ops w)) \<longrightarrow>
      snd (listCategories e w) = Json 200 (map Default defaultCategories)"
    by (simp add: listCategories_present)
  have c4: "\<not> down e (ops w) \<and> categories (db w) = Some ct \<and> \<not> down e (Suc (ops w)) \<longrightarrow>
      db (fst (listCategories e w)) = db w \<and>
      (\<exists>ys. sorted (map cat_name ys) \<and> mset ys = mset (cat_rows ct) \<and>
         snd (listCategories e w) =
           Json 200 (if cat_rows ct = [] then map Default defaultCategories else map Stored ys))"
  proof (intro impI conjI)
    assume h: "\<not> down e (ops w) \<and> categories (db w) = Some ct \<and> \<not> down e (Suc (ops w))"
    then show "db (fst (listCategories e w)) = db w"
      by (simp add: listCategories_present)
    have "sorted (map cat_name (sort_key cat_name (cat_rows ct)))"
      "mset (sort_key cat_name (cat_rows ct)) = mset (cat_rows ct)"
      by simp_all
    moreover have "snd (listCategories e w) =
             Json 200 (if cat_rows ct = [] then map Default defaultCategories
                       else map Stored (sort_key cat_name (cat_rows ct)))"
      using h by (simp add: listCategories_present)
    ultimately show "\<exists>ys. sorted (map cat_name ys) \<and> mset ys = mset (cat_rows ct) \<and>
           snd (listCategories e w) =
             Json 200 (if cat_rows ct = [] then map Default defaultCategories else map Stored ys)"
      by blast
  qed
  have c5: "\<not> down e (ops w) \<and> categories (db w) = None \<longrightarrow>
      (let w' = initializeDatabase e (w\<lparr>ops := Suc (ops w)\<rparr>)
       in (down e (ops w') \<or> categories (db w') = None \<longrightarrow>
             snd (listCategories e w) = Json 200 (map Default defaultCategories)) \<and>
          (\<forall>ct'. \<not> down e (ops w') \<and> categories (db w') = Some ct' \<longrightarrow>
             db (fst (listCategories e w)) = db w' \<and>
             (\<exists>ys. sorted (map cat_name ys) \<and> mset ys = mset (cat_rows ct') \<and>
                snd (listCategories e w) =
                  Json 200 (if cat_rows ct' = [] then map Default defaultCategories
                            else map Stored ys))))"
  proof
    assume h: "\<not> down e (ops w) \<and> categories (db w) = None"
    define w' where "w' = initializeDatabase e (w\<lparr>ops := Suc (ops w)\<rparr>)"
    have a: "down e (ops w') \<or> categories (db w') = None \<longrightarrow>
             snd (listCategories e w) = Json 200 (map Default defaultCategories)"
    proof
      assume "down e (ops w') \<or> categories (db w') = None"
      with h show "snd (listCategories e w) = Json 200 (map Default defaultCategories)"
        by (intro listCategories_healed(1) [OF _ _ w'_def]) simp_all
    qed
    have b: "\<forall>ct'. \<not> down e (ops w') \<and> categories (db w') = Some ct' \<longrightarrow>
             db (fst (listCategories e w)) = db w' \<and>
             (\<exists>ys. sorted (map cat_name ys) \<and> mset ys = mset (cat_rows ct') \<and>
                snd (listCategories e w) =
                  Json 200 (if cat_rows ct' = [] then map Default defaultCategories
                            else map Stored ys))"
    proof (intro allI impI)
      fix ct'
      assume g: "\<not> down e (ops w') \<and> categories (db w') = Some ct'"
      have r: "listCategories e w =
             (w'\<lparr>db := db w', ops := Suc (ops w')\<rparr>,
              Json 200 (if cat_rows ct' = [] then map Default defaultCategories
                        else map Stored (sort_key cat_name (cat_rows ct'))))"
        using h g by (intro listCategories_healed(2) [OF _ _ w'_def]) simp_all
      have s: "sorted (map cat_name (sort_key cat_name (cat_rows ct')))"
        "mset (sort_key cat_name (cat_rows ct')) = mset (cat_rows ct')"
        by simp_all
      have d: "db (fst (listCategories e w)) = db w'" by (simp add: r)
      have "snd (listCategories e w) =
              Json 200 (if cat_rows ct' = [] then map Default defaultCategories
                        else map Stored (sort_key cat_name (cat_rows ct')))"
        by (simp add: r)
      with s have "\<exists>ys. sorted (map cat_name ys) \<and> mset ys = mset (cat_rows ct') \<and>
                snd (listCategories e w) =
                  Json 200 (if cat_rows ct' = [] then map Default defaultCategories
                            else map Stored ys)"
        by blast
      with d show "db (fst (listCategories e w)) = db w' \<and>
             (\<exists>ys. sorted (map cat_name ys) \<and> mset ys = mset (cat_rows ct') \<and>
                snd (listCategories e w) =
                  Json 200 (if cat_rows ct' = [] then map Default defaultCategories
                            else map Stored ys))"
        by blast
    qed
    from a b show "let w' = initializeDatabase e (w\<lparr>ops := Suc (ops w)\<rparr>)
       in (down e (ops w') \<or> categories (db w') = None \<longrightarrow>
             snd (listCategories e w) = Json 200 (map Default defaultCategories)) \<and>
          (\<forall>ct'. \<not> down e (ops w') \<and> categories (db w') = Some ct' \<longrightarrow>
             db (fst (listCategories e w)) = db w' \<and>
             (\<exists>ys. sorted (map cat_name ys) \<and> mset ys = mset (cat_rows ct') \<and>
                snd (listCategories e w) =
                  Json 200 (if cat_rows ct' = [] then map Default defaultCategories
                            else map Stored ys)))"
      unfolding Let_def w'_def [symmetric] by blast
  qed
  have c6: "\<not> down e (ops w) \<and> categories (db w) = None \<and>
    (down e (Suc (ops w)) \<or> down e (Suc (Suc (ops w)))) \<longrightarrow>
      snd (listCategories e w) = Json 200 (map Default defaultCategories)"
  proof
    assume h: "\<not> down e (ops w) \<and> categories (db w) = None \<and>
      (down e (Suc (ops w)) \<or> down e (Suc (Suc (ops w))))"
    have "categories (db (initializeDatabase e (w\<lparr>ops := Suc (ops w)\<rparr>))) = None"
      using h by (intro initializeDatabase_no_table) simp_all
    with h show "snd (listCategories e w) = Json 200 (map Default defaultCategories)"
      by (intro listCategories_healed(1) [OF _ _ refl]) simp_all
  qed
  have c7: "\<not> down e (ops w) \<and> categories (db w) = None \<and> comics (db w) = None \<and>
    (\<forall>k. Suc (ops w) \<le> k \<and> k < ops w + 22 \<longrightarrow> \<not> down e k) \<longrightarrow>
      (down e (ops w + 22) \<longrightarrow>
         snd (listCategories e w) = Json 200 (map Default defaultCategories)) \<and>
      (\<not> down e (ops w + 22) \<longrightarrow>
         (\<exists>cs ys. list_all2 seeded defaultCategories cs \<and> mset ys = mset cs \<and>
            sorted (map cat_name ys) \<and> length ys = 16 \<and>
            snd (listCategories e w) = Json 200 (map Stored ys)))"
  proof (intro impI conjI)
    assume h: "\<not> down e (ops w) \<and> categories (db w) = None \<and> comics (db w) = None \<and>
      (\<forall>k. Suc (ops w) \<le> k \<and> k < ops w + 22 \<longrightarrow> \<not> down e k)"
    {
      assume "down e (ops w + 22)"
      with h show "snd (listCategories e w) = Json 200 (map Default defaultCategories)"
        by (intro listCategories_fresh(1)) simp_all
    }
    {
      assume "\<not> down e (ops w + 22)"
      with h have "\<exists>cs. list_all2 seeded defaultCategories cs \<and>
           snd (listCategories e w) = Json 200 (map Stored (sort_key cat_name cs))"
        by (intro listCategories_fresh(2)) simp_all
      then obtain cs where cs: "list_all2 seeded defaultCategories cs"
        "snd (listCategories e w) = Json 200 (map Stored (sort_key cat_name cs))"
        by blast
      have "length cs = 16"
        using list_all2_lengthD [OF cs(1)] length_defaultCategories by simp
      then have "mset (sort_key cat_name cs) = mset cs" "sorted (map cat_name (sort_key cat_name cs))"
        "length (sort_key cat_name cs) = 16"
        by simp_all
      with cs show "\<exists>cs ys. list_all2 seeded defaultCategories cs \<and> mset ys = mset cs \<and>
            sorted (map cat_name ys) \<and> length ys = 16 \<and>
            snd (listCategories e w) = Json 200 (map Stored ys)"
        by blast
    }
  qed
  have c8: "length defaultCategories = 16" by (rule length_defaultCategories)
  from c1 c2 c3 c4 c5 c6 c7 c8 show ?thesis by (intro conjI)
qed

theorem listCategories_degrades_witness:
  "snd (listCategories env_down world_two) = Json 200 (map Default defaultCategories) \<and>
   snd (listCategories env_drop world_two) = Json 200 (map Default defaultCategories) \<and>
   snd (listCategories env_up world_two) = Json 200 [Stored category_ngon, Stored category_tu_tien] \<and>
   snd (listCategories env_drop empty_world) = Json 200 (map Default defaultCategories) \<and>
   snd (listCategories env_late empty_world) = Json 200 (map Default defaultCategories) \<and>
   (\<exists>cs ys. list_all2 seeded defaultCategories cs \<and> mset ys = mset cs \<and>
      sorted (map cat_name ys) \<and> length ys = 16 \<and>
      snd (listCategories env_up empty_world) = Json 200 (map Stored ys))"
proof -
  let ?ct = "\<lparr>cat_rows = [category_tu_tien, category_ngon], cat_id_seq = 2\<rparr>"
  have a: "snd (listCategories env_down world_two) = Json 200 (map Default defaultCategories)"
    using listCategories_degrades [of env_down world_two, THEN conjunct2, THEN conjunct1]
    by (simp add: env_down_def env_up_def)
  have b: "snd (listCategories env_drop world_two) = Json 200 (map Default defaultCategories)"
    using listCategories_degrades [of env_drop world_two ?ct, THEN conjunct2, THEN conjunct2,
        THEN conjunct1]
    by (simp add: env_drop_def env_up_def world_two_def)
  have c: "snd (listCategories env_up world_two) = Json 200 [Stored category_ngon, Stored category_tu_tien]"
    using listCategories_degrades [of env_up world_two ?ct, THEN conjunct2, THEN conjunct2,
        THEN conjunct2, THEN conjunct1]
    by (simp add: listCategories_present [of _ _ ?ct] env_up_def world_two_def
        category_tu_tien_def category_ngon_def ustr_def)
  have d: "snd (listCategories env_drop empty_world) = Json 200 (map Default defaultCategories)"
    using listCategories_degrades [of env_drop empty_world, THEN conjunct2, THEN conjunct2,
        THEN conjunct2, THEN conjunct2, THEN conjunct2, THEN conjunct1]
    by (simp add: env_drop_def env_up_def empty_world_def)
  have e: "snd (listCategories env_late empty_world) = Json 200 (map Default defaultCategories)"
    using listCategories_degrades [of env_late empty_world, THEN conjunct2, THEN conjunct2,
        THEN conjunct2, THEN conjunct2, THEN conjunct2, THEN conjunct2, THEN conjunct1]
    by (simp add: env_late_def env_up_def empty_world_def)
  have f: "\<exists>cs ys. list_all2 seeded defaultCategories cs \<and> mset ys = mset cs \<and>
      sorted (map cat_name ys) \<and> length ys = 16 \<and>
      snd (listCategories env_up empty_world) = Json 200 (map Stored ys)"
    using listCategories_degrades [of env_up empty_world, THEN conjunct2, THEN conjunct2,
        THEN conjunct2, THEN conjunct2, THEN conjunct2, THEN conjunct2, THEN conjunct1]
    by (simp add: env_up_def empty_world_def)
  from a b c d e f show ?thesis by (intro conjI)
qed

text \<open>
  The claim as it was stated fails on a categories table without rows: the query
  succeeds, and the response is the default list, not the (empty) list of stored rows.
\<close>

theorem listCategories_empty_table_counterexample:
  "categories (db world_c) = Some \<lparr>cat_rows = [], cat_id_seq = 0\<rparr> \<and>
   snd (pool_query env_up (world_c\<lparr>ops := 1\<rparr>) sql_select_categories) = Inr [] \<and>
   snd (listCategories env_up world_c) \<noteq> Json 200 (map Stored [])"
  using listCategories_present [of env_up world_c "\<lparr>cat_rows = [], cat_id_seq = 0\<rparr>"] length_defaultCategories
  by (auto simp: env_up_def world_c_def pool_query_def sql_select_categories_def)

text \<open>
  Claim C10. The response of \<^verbatim>\<open>GET /api/categories\<close> is never an empty array; when the
  table exists, the store answers and the table has no row, it is the default list of
  sixteen entries.
\<close>

theorem listCategories_never_empty:
  "(\<exists>xs. snd (listCategories e w) = Json 200 xs \<and> xs \<noteq> []) \<and>
   (\<not> down e (ops w) \<and> \<not> down e (Suc (ops w)) \<and> categories (db w) = Some ct \<and> cat_rows ct = [] \<longrightarrow>
      snd (listCategories e w) = Json 200 (map Default defaultCategories)) \<and>
   length (map Default defaultCategories) = 16"
proof (intro conjI impI)
  obtain xs where xs: "snd (listCategories e w) = Json 200 xs"
     "xs = map Default defaultCategories \<or>
      (\<exists>ct. categories (db (fst (listCategories e w))) = Some ct \<and> cat_rows ct \<noteq> [] \<and>
            xs = map Stored (sort_key cat_name (cat_rows ct)))"
    using listCategories_shape by blast
  have "defaultCategories \<noteq> []" using length_defaultCategories by auto
  then have "xs \<noteq> []" using xs(2) by (auto simp: sort_key_empty)
  with xs(1) show "\<exists>xs. snd (listCategories e w) = Json 200 xs \<and> xs \<noteq> []" by blast
next
  assume "\<not> down e (ops w) \<and> \<not> down e (Suc (ops w)) \<and> categories (db w) = Some ct \<and> cat_rows ct = []"
  then show "snd (listCategories e w) = Json 200 (map Default defaultCategories)"
    by (simp add: listCategories_present)
next
  show "length (map Default defaultCategories) = 16" by (simp add: length_defaultCategories)
qed

theorem listCategories_never_empty_witness:
  "snd (listCategories env_up world_c) = Json 200 (map Default defaultCategories) \<and>
   length (map Default defaultCategories) = 16"
  using listCategories_never_empty [of env_up world_c "\<lparr>cat_rows = [], cat_id_seq = 0\<rparr>"]
  by (simp add: env_up_def world_c_def)

section \<open>Statistics\<close>

lemma reading_iff: "reading r \<longleftrightarrow> chapter r \<noteq> None \<and> chapter r \<noteq> Some [] \<and> chapter r \<noteq> Some (ustr ''0'')"
  by (cases "chapter r") (simp_all add: reading_def)

lemma count_items_up:
  assumes "\<not> down e (ops w)" "\<not> down e (Suc (ops w))" "comics (db w) = Some tb"
  shows "count_items e w =
     (w\<lparr>db := db w, ops := Suc (Suc (ops w))\<rparr>, Inr (length (rows tb), length (filter reading (rows tb))))"
  using assms by (simp add: count_items_def pool_query_def sql_count_comics_def sql_count_reading_def)

lemma tables_exist_up:
  "\<not> down e (ops w) \<Longrightarrow>
   pool_query e w sql_tables_exist =
     (w\<lparr>db := db w, ops := Suc (ops w)\<rparr>, Inr (categories (db w) \<noteq> None, comics (db w) \<noteq> None))"
  by (simp add: pool_query_def sql_tables_exist_def table_exists_def)

lemma count_categories_up:
  "\<not> down e (ops w) \<Longrightarrow> categories (db w) = Some ct \<Longrightarrow>
   pool_query e w (sql_count_table ''categories'') =
     (w\<lparr>db := db w, ops := Suc (ops w)\<rparr>, Inr (length (cat_rows ct)))"
  by (simp add: pool_query_def sql_count_table_def)

text \<open>
  Claim C7. When the store answers the queries of \<^verbatim>\<open>GET /api/stats\<close> (four at most),
  the response is 200 with \<^verbatim>\<open>totalItems\<close> the number of comics (0 without the table),
  \<^verbatim>\<open>totalCategories\<close> the number of categories, or the length 16 of the default list
  without the table, and \<^verbatim>\<open>readingCount\<close> the number of comics whose chapter is neither
  \<^verbatim>\<open>NULL\<close> nor empty nor \<^verbatim>\<open>"0"\<close>; the store is as it was. On the store that
  \<^verbatim>\<open>initializeDatabase\<close> makes of an empty one the counts are 0, 16 and 0.
\<close>

theorem getStats_counts:
  "\<not> down e (ops w) \<and> \<not> down e (ops w + 1) \<and> \<not> down e (ops w + 2) \<and> \<not> down e (ops w + 3) \<longrightarrow>
     snd (getStats e w) =
       Json 200
         \<lparr>totalItems = (case comics (db w) of None \<Rightarrow> 0 | Some tb \<Rightarrow> length (rows tb)),
          totalCategories = (case categories (db w) of None \<Rightarrow> length defaultCategories
                             | Some ct \<Rightarrow> length (cat_rows ct)),
          readingCount = (case comics (db w) of None \<Rightarrow> 0
                          | Some tb \<Rightarrow> length (filter (\<lambda>r. chapter r \<noteq> None \<and> chapter r \<noteq> Some [] \<and>
                                                         chapter r \<noteq> Some (ustr ''0'')) (rows tb)))\<rparr> \<and>
     db (fst (getStats e w)) = db w \<and>
     length defaultCategories = 16"
proof (intro impI)
  assume h: "\<not> down e (ops w) \<and> \<not> down e (ops w + 1) \<and> \<not> down e (ops w + 2) \<and> \<not> down e (ops w + 3)"
  define w1 where "w1 = w\<lparr>db := db w, ops := Suc (ops w)\<rparr>"
  have w1: "db w1 = db w" "ops w1 = Suc (ops w)" by (simp_all add: w1_def)
  have q1: "pool_query e w sql_tables_exist = (w1, Inr (categories (db w) \<noteq> None, comics (db w) \<noteq> None))"
    using h by (simp add: tables_exist_up w1_def)
  have rd: "\<And>rs. filter reading rs = filter (\<lambda>r. chapter r \<noteq> None \<and> chapter r \<noteq> Some [] \<and>
                                                         chapter r \<noteq> Some (ustr ''0'')) rs"
    by (rule filter_cong) (simp_all add: reading_iff)
  have up: "\<not> down e (Suc (ops w))" "\<not> down e (Suc (Suc (ops w)))" "\<not> down e (Suc (Suc (Suc (ops w))))"
    using h by (simp_all add: numeral_3_eq_3 numeral_2_eq_2)
  show "snd (getStats e w) =
       Json 200
         \<lparr>totalItems = (case comics (db w) of None \<Rightarrow> 0 | Some tb \<Rightarrow> length (rows tb)),
          totalCategories = (case categories (db w) of None \<Rightarrow> length defaultCategories
                             | Some ct \<Rightarrow> length (cat_rows ct)),
          readingCount = (case comics (db w) of None \<Rightarrow> 0
                          | Some tb \<Rightarrow> length (filter (\<lambda>r. chapter r \<noteq> None \<and> chapter r \<noteq> Some [] \<and>
                                                         chapter r \<noteq> Some (ustr ''0'')) (rows tb)))\<rparr> \<and>
     db (fst (getStats e w)) = db w \<and>
     length defaultCategories = 16"
  proof (cases "comics (db w)")
    case None
    show ?thesis
    proof (cases "categories (db w)")
      case n2: None
      with None show ?thesis
        by (simp add: getStats_def q1 w1 length_defaultCategories)
    next
      case (Some ct)
      with None up show ?thesis
        using count_categories_up [of e w1 ct]
        by (simp add: getStats_def q1 w1 length_defaultCategories)
    qed
  next
    case (Some tb)
    define w2 where "w2 = w1\<lparr>db := db w1, ops := Suc (Suc (ops w1))\<rparr>"
    have w2: "db w2 = db w" "ops w2 = Suc (Suc (Suc (ops w)))" by (simp_all add: w2_def w1)
    have q2: "count_items e w1 = (w2, Inr (length (rows tb), length (filter reading (rows tb))))"
      using count_items_up [of e w1 tb] up Some by (simp add: w1 w2_def)
    show ?thesis
    proof (cases "categories (db w)")
      case None
      with Some show ?thesis
        by (simp add: getStats_def q1 q2 w2 length_defaultCategories rd)
    next
      case s2: (Some ct)
      with Some up show ?thesis
        using count_categories_up [of e w2 ct]
        by (simp add: getStats_def q1 q2 w2 length_defaultCategories rd)
    qed
  qed
qed

theorem getStats_counts_witness:
  "snd (getStats env_up (initializeDatabase env_up empty_world)) =
     Json 200 \<lparr>totalItems = 0, totalCategories = 16, readingCount = 0\<rparr> \<and>
   snd (getStats env_up world_a) = Json 200 \<lparr>totalItems = 1, totalCategories = 16, readingCount = 1\<rparr>"
proof -
  have up: "\<forall>k. \<not> down env_up k" by (simp add: env_up_def)
  then have up': "\<forall>k. ops empty_world \<le> k \<and> k < ops empty_world + 21 \<longrightarrow> \<not> down env_up k"
    by simp
  from initializeDatabase_fresh [OF up', of ] obtain ct where
    ct: "categories (db (initializeDatabase env_up empty_world)) = Some ct"
      "list_all2 seeded defaultCategories (cat_rows ct)"
      "comics (db (initializeDatabase env_up empty_world)) = Some \<lparr>rows = [], id_seq = 0, category_id_fkey = True\<rparr>"
    by (auto simp: empty_world_def)
  have len: "length (cat_rows ct) = 16"
    using list_all2_lengthD [OF ct(2)] length_defaultCategories by simp
  show ?thesis
    using getStats_counts [of env_up "initializeDatabase env_up empty_world"]
      getStats_counts [of env_up world_a] ct len up
    by (simp add: world_a_def table_a_def comic_a_def ustr_def)
qed

section \<open>Listing the comics\<close>






















section \<open>The pool on the other paths\<close>

text \<open>
  The paths that do release: \<^verbatim>\<open>initializeDatabase\<close> gives back what it took on every path
  (\<open>initializeDatabase_releases\<close>), and so does \<^verbatim>\<open>GET /api/debug/db\<close> once its first
  two queries have succeeded, whatever the counts of the tables do.
\<close>

lemma count_tables_counters:
  "acquired (fst (count_tables e w ns)) = acquired w \<and> released (fst (count_tables e w ns)) = released w"
proof (induction ns arbitrary: w)
  case Nil
  then show ?case by simp
next
  case (Cons n ns)
  obtain w1 r where q: "pool_query e w (sql_count_table n) = (w1, r)"
    by (cases "pool_query e w (sql_count_table n)")
  have c: "acquired w1 = acquired w" "released w1 = released w"
    using pool_query_counters [of e w "sql_count_table n"] q by simp_all
  obtain w2 cs where t: "count_tables e w1 ns = (w2, cs)"
    by (cases "count_tables e w1 ns")
  with q c Cons.IH [of w1] show ?case by simp
qed

lemma debugInfo_released:
  assumes "\<not> down e (ops w)" "\<not> down e (Suc (ops w))" "\<not> down e (Suc (Suc (ops w)))"
  shows "acquired (fst (debugInfo e w)) = Suc (acquired w) \<and>
         released (fst (debugInfo e w)) = Suc (released w)"
proof -
  define w0 where "w0 = w\<lparr>ops := Suc (ops w), acquired := Suc (acquired w)\<rparr>"
  define w1 where "w1 = w0\<lparr>db := db w0, ops := Suc (ops w0)\<rparr>"
  define w2 where "w2 = w1\<lparr>db := db w1, ops := Suc (ops w1)\<rparr>"
  define ns where "ns = filter (\<lambda>n. table_exists n (db w)) [''categories'', ''comics'']"
  have c: "pool_connect e w = (w0, True)" using assms(1) by (simp add: pool_connect_def w0_def)
  have q1: "pool_query e w0 sql_now = (w1, Inr (now e (Suc (ops w))))"
    using assms(2) by (simp add: pool_query_def sql_now_def w0_def w1_def)
  have q2: "pool_query e w1 sql_public_tables = (w2, Inr ns)"
    using assms(3) by (simp add: pool_query_def sql_public_tables_def w0_def w1_def w2_def ns_def)
  obtain w3 cs where t: "count_tables e w2 ns = (w3, cs)" by (cases "count_tables e w2 ns")
  have k: "acquired w3 = Suc (acquired w)" "released w3 = released w"
    using count_tables_counters [of e w2 ns] t by (simp_all add: w0_def w1_def w2_def)
  have "debugInfo e w = (client_release w3,
      Json 200 \<lparr>timestamp = now e (Suc (ops w)), tables = ns, rowCounts = cs\<rparr>)"
    by (simp add: debugInfo_def c q1 q2 t)
  with k show ?thesis by (simp add: client_release_def)
qed

end
